theory Spec2Isabelle
  imports Complex_Main
begin

section \<open>The control-protocol engine of mplayer/core.py\<close>

text \<open>
  A shallow embedding of \<^verbatim>\<open>src/mplayer/core.py\<close>: the value object \<^verbatim>\<open>Step\<close>, the
  command channel \<^verbatim>\<open>Player._command\<close>, the property setters, the argument list of the
  player and the publisher \<^verbatim>\<open>_FileWrapper\<close>.

  The source runs on Python 3 (it decodes what it reads and encodes what it writes, and
  its entry point falls back from \<^verbatim>\<open>raw_input\<close> to \<^verbatim>\<open>input\<close>), and the built-ins are
  modelled as Python 3 defines them: integers are unbounded, and \<^verbatim>\<open>map\<close> returns an
  iterator that stops with the shorter of its sequences and has no method \<^verbatim>\<open>index\<close>.
  A setter compares a value only after the value has passed \<^verbatim>\<open>isinstance\<close> for the type
  that made the bounds, so the two are of one kind; on values of unlike kinds, which
  Python 3 does not order, the comparison of the model orders by kind.

  Text is modelled as \<^typ>\<open>string\<close> over the ASCII range, where \<^verbatim>\<open>encode\<close> and \<^verbatim>\<open>decode\<close>
  change nothing. A Python \<^verbatim>\<open>float\<close> is a \<^typ>\<open>real\<close>; only its comparisons and its
  \<^verbatim>\<open>str\<close> form are used, and the latter is a parameter \<open>fstr\<close> of every function that
  renders a value.
\<close>

subsection \<open>Runtime values and types\<close>

datatype pyval = PNone | PBool bool | PInt int | PFloat real | PStr string

text \<open>The classes the introspection's \<^verbatim>\<open>type_map\<close> hands out.\<close>

datatype pytype = TBool | TFloat | TInt | TStr | TDict

datatype error = TypeError string | ValueError string | AttributeError string | IndexError string

fun type_name :: "pytype \<Rightarrow> string" where
  "type_name TBool = ''bool''"
| "type_name TFloat = ''float''"
| "type_name TInt = ''int''"
| "type_name TStr = ''str''"
| "type_name TDict = ''dict''"

text \<open>\<^verbatim>\<open>type(x).__name__\<close>\<close>

fun class_name :: "pyval \<Rightarrow> string" where
  "class_name PNone = ''NoneType''"
| "class_name (PBool _) = ''bool''"
| "class_name (PInt _) = ''int''"
| "class_name (PFloat _) = ''float''"
| "class_name (PStr _) = ''str''"

text \<open>\<^verbatim>\<open>isinstance(x, t)\<close>: \<^verbatim>\<open>bool\<close> is a subclass of \<^verbatim>\<open>int\<close>.\<close>

fun isinstance :: "pyval \<Rightarrow> pytype \<Rightarrow> bool" where
  "isinstance (PBool _) TBool = True"
| "isinstance (PBool _) TInt = True"
| "isinstance (PInt _) TInt = True"
| "isinstance (PFloat _) TFloat = True"
| "isinstance (PStr _) TStr = True"
| "isinstance _ _ = False"

text \<open>\<^verbatim>\<open>isinstance(x, (t1, t2, ...))\<close>\<close>

definition isinstance_any :: "pyval \<Rightarrow> pytype list \<Rightarrow> bool" where
  "isinstance_any x ts = list_ex (isinstance x) ts"

subsection \<open>Strings\<close>

definition digit_char :: "nat \<Rightarrow> char" where
  "digit_char d = ''0123456789'' ! (d mod 10)"

fun digits :: "nat \<Rightarrow> string" where
  "digits n = (if n < 10 then [digit_char n] else digits (n div 10) @ [digit_char (n mod 10)])"

declare digits.simps [simp del]

text \<open>\<^verbatim>\<open>str\<close> of an \<^verbatim>\<open>int\<close>\<close>

definition str_int :: "int \<Rightarrow> string" where
  "str_int i = (if i < 0 then CHR ''-'' # digits (nat (- i)) else digits (nat i))"

text \<open>\<^verbatim>\<open>str(x)\<close>; \<open>fstr\<close> is \<^verbatim>\<open>str\<close> on floats.\<close>

fun pystr :: "(real \<Rightarrow> string) \<Rightarrow> pyval \<Rightarrow> string" where
  "pystr fstr PNone = ''None''"
| "pystr fstr (PBool b) = (if b then ''True'' else ''False'')"
| "pystr fstr (PInt i) = str_int i"
| "pystr fstr (PFloat r) = fstr r"
| "pystr fstr (PStr s) = s"

text \<open>\<^verbatim>\<open>int(x)\<close> on a \<^verbatim>\<open>bool\<close>\<close>

definition int_of_bool :: "bool \<Rightarrow> int" where
  "int_of_bool b = (if b then 1 else 0)"

text \<open>\<^verbatim>\<open>sep.join(xs)\<close>\<close>

fun join :: "string \<Rightarrow> string list \<Rightarrow> string" where
  "join sep [] = []"
| "join sep [x] = x"
| "join sep (x # y # ys) = x @ sep @ join sep (y # ys)"

definition startswith :: "string \<Rightarrow> string \<Rightarrow> bool" where
  "startswith s p = (take (length p) s = p)"

text \<open>The whitespace of \<^verbatim>\<open>rstrip()\<close> on decoded text, in the ASCII range.\<close>

definition is_space :: "char \<Rightarrow> bool" where
  "is_space c = (let n = (of_char c :: nat) in (9 \<le> n \<and> n \<le> 13) \<or> (28 \<le> n \<and> n \<le> 32))"

definition rstrip :: "string \<Rightarrow> string" where
  "rstrip s = rev (dropWhile is_space (rev s))"

text \<open>\<^verbatim>\<open>s.strip(chars)\<close>\<close>

definition strip :: "string \<Rightarrow> string \<Rightarrow> string" where
  "strip chars s =
     rev (dropWhile (\<lambda>c. c \<in> set chars) (rev (dropWhile (\<lambda>c. c \<in> set chars) s)))"

text \<open>\<^verbatim>\<open>s.partition(sep)[2]\<close> for a separator of one character.\<close>

definition partition_tail :: "char \<Rightarrow> string \<Rightarrow> string" where
  "partition_tail sep s = (case dropWhile (\<lambda>c. c \<noteq> sep) s of [] \<Rightarrow> [] | _ # r \<Rightarrow> r)"

definition decode :: "string \<Rightarrow> string" where
  "decode s = s"

definition encode :: "string \<Rightarrow> string" where
  "encode s = s"

subsection \<open>Step\<close>

record step =
  s_val :: pyval
  s_dir :: pyval

text \<open>\<^verbatim>\<open>Step.__init__(self, value=0, direction=0)\<close>\<close>

definition Step_init :: "pyval \<Rightarrow> pyval \<Rightarrow> error + step" where
  "Step_init val direction =
     (if \<not> isinstance_any val [TInt, TFloat] then Inl (TypeError ''expected int or float for value'')
      else if \<not> isinstance direction TInt then Inl (TypeError ''expected int for direction'')
      else Inr \<lparr>s_val = val, s_dir = direction\<rparr>)"

subsection \<open>Files, subscribers and the publisher\<close>

text \<open>
  An object handed to \<^verbatim>\<open>hook\<close> is a callback, known by its identity, or some value that
  cannot be called. A callback's own code is outside the engine: calling it is recorded as
  one entry of the log \<open>delivered\<close>, and it is taken to return normally.
\<close>

datatype subscriber = Callback nat | NotCallable pyval

fun has_call :: "subscriber \<Rightarrow> bool" where
  "has_call (Callback _) = True"
| "has_call (NotCallable _) = False"

text \<open>
  File objects live in a store, since \<^verbatim>\<open>spawn\<close> makes \<^verbatim>\<open>_stdout._file\<close> and
  \<^verbatim>\<open>_proc.stdout\<close> the same object: \<open>files w f\<close> is what remains to be read from the file
  \<open>f\<close>, line by line, each line as \<^verbatim>\<open>readline\<close> returns it.
\<close>

type_synonym fileid = nat

record world =
  files :: "fileid \<Rightarrow> string list"
  delivered :: "(subscriber \<times> string) list"

text \<open>\<^verbatim>\<open>f.readline()\<close>: the next line, or the empty string at the end of the file.\<close>

definition readline :: "fileid \<Rightarrow> world \<Rightarrow> string \<times> world" where
  "readline f w =
     (case files w f of
        [] \<Rightarrow> ([], w)
      | l # ls \<Rightarrow> (l, w\<lparr>files := (files w)(f := ls)\<rparr>))"

record FileWrapper =
  fw_file :: "fileid option"
  fw_lock :: bool
  fw_subscribers :: "subscriber list"

text \<open>The loop \<^verbatim>\<open>for subscriber in self._subscribers: subscriber(data)\<close>\<close>

fun call_subscribers :: "subscriber list \<Rightarrow> string \<Rightarrow> world \<Rightarrow> world" where
  "call_subscribers [] data w = w"
| "call_subscribers (s # ss) data w =
     call_subscribers ss data (w\<lparr>delivered := delivered w @ [(s, data)]\<rparr>)"

text \<open>\<^verbatim>\<open>_FileWrapper.publish\<close>; the check of the lock and the read are one step.\<close>

definition publish :: "FileWrapper \<Rightarrow> world \<Rightarrow> bool \<times> world" where
  "publish fw w =
     (case (fw_lock fw, fw_file fw) of
        (False, Some f) \<Rightarrow>
          (case readline f w of
             (raw, w') \<Rightarrow>
               (let data = rstrip (decode raw) in
                if data = [] then (True, w')
                else (True, call_subscribers (fw_subscribers fw) data w')))
      | _ \<Rightarrow> (True, w))"

text \<open>\<^verbatim>\<open>_FileWrapper.hook\<close>: calling what cannot be called raises the type error.\<close>

definition hook :: "FileWrapper \<Rightarrow> subscriber \<Rightarrow> error + bool \<times> FileWrapper" where
  "hook fw s =
     (case s of
        NotCallable v \<Rightarrow>
          Inl (TypeError ([CHR 0x27] @ class_name v @ [CHR 0x27] @ '' object is not callable''))
      | Callback _ \<Rightarrow>
          (if s \<notin> set (fw_subscribers fw) then
             Inr (True, fw\<lparr>fw_subscribers := fw_subscribers fw @ [s]\<rparr>)
           else Inr (False, fw)))"

text \<open>\<^verbatim>\<open>_FileWrapper.unhook\<close>; \<^verbatim>\<open>list.remove\<close> takes the first occurrence out.\<close>

definition unhook :: "FileWrapper \<Rightarrow> subscriber \<Rightarrow> bool \<times> FileWrapper" where
  "unhook fw s =
     (if s \<in> set (fw_subscribers fw) then
        (True, fw\<lparr>fw_subscribers := remove1 s (fw_subscribers fw)\<rparr>)
      else (False, fw))"

text \<open>\<^verbatim>\<open>_FileWrapper.__init__\<close>\<close>

definition FileWrapper_init :: FileWrapper where
  "FileWrapper_init = \<lparr>fw_file = None, fw_lock = False, fw_subscribers = []\<rparr>"

subsection \<open>The process and the player\<close>

text \<open>
  The \<^verbatim>\<open>Popen\<close> object: \<open>returncode\<close> is what \<^verbatim>\<open>poll()\<close> reports (\<^verbatim>\<open>None\<close> while the
  process runs), \<open>stdin\<close> the byte strings written to the process so far, one entry a
  \<^verbatim>\<open>write\<close>, and \<open>stdout\<close> the file object of the pipe, if there is one.
\<close>

record Popen =
  returncode :: "int option"
  stdin :: "string list"
  stdout :: "fileid option"

text \<open>The \<^verbatim>\<open>Player\<close>; \<open>command_prefix\<close> is the attribute of its class.\<close>

record player =
  p_args :: "string list"
  p_stdout :: FileWrapper
  p_stderr :: FileWrapper
  p_proc :: "Popen option"
  command_prefix :: string

definition is_alive :: "player \<Rightarrow> bool" where
  "is_alive p = (case p_proc p of Some pr \<Rightarrow> returncode pr = None | None \<Rightarrow> False)"

text \<open>What a call does: it returns a value (\<^verbatim>\<open>None\<close> or a string) or raises.\<close>

datatype outcome = Returned "string option" | Raised error

subsection \<open>The command channel\<close>

text \<open>
  \<^verbatim>\<open>map(isinstance, args, types)\<close>: the items the iterator yields, one for each pair
  of an argument and a type, up to the end of the shorter sequence.
\<close>

definition map_isinstance :: "pyval list \<Rightarrow> pytype list \<Rightarrow> bool list" where
  "map_isinstance args types = map (\<lambda>(x, t). isinstance x t) (zip args types)"

text \<open>
  The validation of \<^verbatim>\<open>_command\<close> (\<^verbatim>\<open>if types: ...\<close>): the error it raises, if any.
  When \<^verbatim>\<open>all(result)\<close> is false, the next statement is \<^verbatim>\<open>i = result.index(False)\<close>, and
  the look-up of \<^verbatim>\<open>index\<close> on the iterator raises; the statement after it, which would
  raise the type error, is not reached.
\<close>

definition check_types :: "pyval list \<Rightarrow> pytype list \<Rightarrow> error option" where
  "check_types args types =
     (if types = [] then None
      else
        let result = map_isinstance args (take (length args) types)
        in if list_all (\<lambda>b. b) result then None
           else Some (AttributeError ([CHR 0x27] @ ''map'' @ [CHR 0x27] @
                  '' object has no attribute '' @ [CHR 0x27] @ ''index'' @ [CHR 0x27])))"

text \<open>\<^verbatim>\<open>str(int(x)) if isinstance(x, bool) else str(x)\<close>\<close>

definition render :: "(real \<Rightarrow> string) \<Rightarrow> pyval \<Rightarrow> string" where
  "render fstr x =
     (case x of PBool b \<Rightarrow> str_int (int_of_bool b) | _ \<Rightarrow> pystr fstr x)"

text \<open>The line of \<^verbatim>\<open>_command\<close>, from \<^verbatim>\<open>command = [prefix, name]\<close> to \<^verbatim>\<open>.encode()\<close>.\<close>

definition wire_line :: "(real \<Rightarrow> string) \<Rightarrow> string \<Rightarrow> string \<Rightarrow> pyval list \<Rightarrow> string" where
  "wire_line fstr prefix name args =
     (let command = [prefix, name] @ map (render fstr) args @ [[CHR 0x0A]];
          command = (if name \<in> set [''quit'', ''pause'', ''stop''] then tl command else command)
      in encode (join '' '' command))"

text \<open>
  The loop \<^verbatim>\<open>while True\<close> of the exchange. It has no other exit than an answer line:
  where none comes, it does not return, and the value is \<open>None\<close>.
\<close>

definition is_answer :: "string \<Rightarrow> string \<Rightarrow> bool" where
  "is_answer key res = (startswith res key \<or> startswith res ''ANS_ERROR'')"

partial_function (option) read_answer :: "string \<Rightarrow> fileid \<Rightarrow> world \<Rightarrow> (string \<times> world) option" where
  "read_answer key f w =
     (case readline f w of
        (raw, w') \<Rightarrow>
          (let res = rstrip (decode raw) in
           if is_answer key res then Some (res, w')
           else read_answer key f w'))"

declare read_answer.simps [code]

text \<open>The value returned for the answer line \<open>res\<close>.\<close>

definition answer :: "string \<Rightarrow> string option" where
  "answer res =
     (let ans = strip [CHR 0x27, CHR 0x22] (partition_tail (CHR ''='') res) in
      if ans \<in> set [''(null)'', ''PROPERTY_UNAVAILABLE'', ''PROPERTY_UNKNOWN''] then None
      else Some ans)"

text \<open>
  \<^verbatim>\<open>Player._command(name, *args, types=..., prefix=...)\<close>. \<open>types = []\<close> is the default
  \<^verbatim>\<open>()\<close>, \<open>prefix = None\<close> the absent or \<^verbatim>\<open>None\<close> prefix. The result is \<open>None\<close> when the
  call does not return: the loop of the exchange runs forever, or the lock is held
  already and nobody in this sequential model releases it.
\<close>

definition command ::
  "(real \<Rightarrow> string) \<Rightarrow> player \<Rightarrow> world \<Rightarrow> string \<Rightarrow> pyval list \<Rightarrow> pytype list \<Rightarrow> string option
     \<Rightarrow> (outcome \<times> player \<times> world) option" where
  "command fstr p w name args types prefix =
     (case p_proc p of
        None \<Rightarrow> Some (Returned None, p, w)
      | Some pr \<Rightarrow>
          if \<not> is_alive p \<or> name = [] then Some (Returned None, p, w)
          else
            let prefix = (case prefix of None \<Rightarrow> command_prefix p | Some x \<Rightarrow> x);
                args = filter (\<lambda>x. x \<noteq> PNone) args
            in case check_types args types of
                 Some e \<Rightarrow> Some (Raised e, p, w)
               | None \<Rightarrow>
                   let cmd = wire_line fstr prefix name args;
                       written = p\<lparr>p_proc := Some (pr\<lparr>stdin := stdin pr @ [cmd]\<rparr>)\<rparr>
                   in if \<not> startswith name ''get_'' then Some (Returned None, written, w)
                      else case stdout pr of
                        None \<Rightarrow> Some (Returned None, p, w)
                      | Some f \<Rightarrow>
                          let key = ''ANS_'' @ (case args of [] \<Rightarrow> [] | a # _ \<Rightarrow> pystr fstr a)
                          in if fw_lock (p_stdout p) then None
                             else
                               let held = written\<lparr>p_stdout := (p_stdout p)\<lparr>fw_lock := True\<rparr>\<rparr>
                               in case read_answer key f w of
                                    None \<Rightarrow> None
                                  | Some (res, w') \<Rightarrow>
                                      Some (Returned (answer res),
                                            held\<lparr>p_stdout := (p_stdout held)\<lparr>fw_lock := False\<rparr>\<rparr>,
                                            w'))"

subsection \<open>Property setters\<close>

text \<open>
  \<^verbatim>\<open>a < b\<close> on the values of the model: numbers (booleans among them) by their value,
  strings by their characters, and values of unlike kinds by kind.
\<close>

fun num :: "pyval \<Rightarrow> real" where
  "num (PBool b) = (if b then 1 else 0)"
| "num (PInt i) = of_int i"
| "num (PFloat r) = r"
| "num _ = 0"

fun kind :: "pyval \<Rightarrow> nat" where
  "kind PNone = 0"
| "kind (PStr _) = 2"
| "kind _ = 1"

fun str_less :: "string \<Rightarrow> string \<Rightarrow> bool" where
  "str_less [] [] = False"
| "str_less [] (b # bs) = True"
| "str_less (a # as) [] = False"
| "str_less (a # as) (b # bs) =
     (if a = b then str_less as bs else (of_char a :: nat) < of_char b)"

definition py_less :: "pyval \<Rightarrow> pyval \<Rightarrow> bool" where
  "py_less a b =
     (if kind a \<noteq> kind b then kind a < kind b
      else case (a, b) of
        (PStr x, PStr y) \<Rightarrow> str_less x y
      | (PNone, PNone) \<Rightarrow> False
      | _ \<Rightarrow> num a < num b)"

text \<open>The value assigned to a property: a plain value or a \<^verbatim>\<open>Step\<close>.\<close>

datatype propval = Val pyval | StepVal step

text \<open>A setter returns \<^verbatim>\<open>None\<close> whatever \<^verbatim>\<open>_command\<close> returned.\<close>

definition discard :: "(outcome \<times> player \<times> world) option \<Rightarrow> (outcome \<times> player \<times> world) option" where
  "discard r =
     map_option (\<lambda>(out, p, w). (case out of Returned _ \<Rightarrow> Returned None | Raised e \<Rightarrow> Raised e, p, w)) r"

text \<open>\<^verbatim>\<open>Player._propset(value, pname, ptype, pmin, pmax)\<close>\<close>

definition propset ::
  "(real \<Rightarrow> string) \<Rightarrow> player \<Rightarrow> world \<Rightarrow> propval \<Rightarrow> string \<Rightarrow> pytype \<Rightarrow> pyval option \<Rightarrow> pyval option
     \<Rightarrow> (outcome \<times> player \<times> world) option" where
  "propset fstr p w val pname ptype pmin pmax =
     (case val of
        Val v \<Rightarrow>
          if \<not> isinstance v ptype then
            Some (Raised (TypeError (''expected '' @ type_name ptype)), p, w)
          else if (case pmin of None \<Rightarrow> False | Some lo \<Rightarrow> py_less v lo) then
            Some (Raised (ValueError (''value must be at least '' @
              (case pmin of None \<Rightarrow> [] | Some lo \<Rightarrow> pystr fstr lo))), p, w)
          else if (case pmax of None \<Rightarrow> False | Some hi \<Rightarrow> py_less hi v) then
            Some (Raised (ValueError (''value must be at most '' @
              (case pmax of None \<Rightarrow> [] | Some hi \<Rightarrow> pystr fstr hi))), p, w)
          else discard (command fstr p w ''set_property'' [PStr pname, v] [] None)
      | StepVal s \<Rightarrow>
          discard (command fstr p w ''step_property'' [PStr pname, s_val s, s_dir s] [] None))"

text \<open>\<^verbatim>\<open>Player._propset_bool(value, pname)\<close>\<close>

definition propset_bool ::
  "(real \<Rightarrow> string) \<Rightarrow> player \<Rightarrow> world \<Rightarrow> propval \<Rightarrow> string \<Rightarrow> (outcome \<times> player \<times> world) option" where
  "propset_bool fstr p w val pname =
     (case val of
        Val v \<Rightarrow>
          if \<not> isinstance v TBool then Some (Raised (TypeError ''expected bool''), p, w)
          else discard (command fstr p w ''set_property'' [PStr pname, v] [] None)
      | StepVal s \<Rightarrow> discard (command fstr p w ''step_property'' [PStr pname] [] None))"

subsection \<open>The argument list\<close>

text \<open>
  What is assigned to \<^verbatim>\<open>Player.args\<close>: a string, or a sequence of values. \<^verbatim>\<open>shlex.split\<close>
  belongs to the standard library and is a parameter \<open>split\<close> on strings; on a sequence
  it raises \<^verbatim>\<open>AttributeError\<close>, as a sequence cannot be read.
\<close>

datatype args_in = ArgString string | ArgSeq "pyval list"

definition fixed_args :: "string list" where
  "fixed_args = [''-slave'', ''-idle'', ''-quiet'', ''-input'', ''nodefault-bindings'',
     ''-noconfig'', ''all'']"

definition args_setter ::
  "(string \<Rightarrow> error + string list) \<Rightarrow> (real \<Rightarrow> string) \<Rightarrow> player \<Rightarrow> args_in \<Rightarrow> error + player" where
  "args_setter split fstr p a =
     (case (case a of ArgString s \<Rightarrow> split s
                    | ArgSeq xs \<Rightarrow> Inl (AttributeError ''object has no attribute read'')) of
        Inr ts \<Rightarrow> Inr (p\<lparr>p_args := fixed_args @ ts\<rparr>)
      | Inl (AttributeError m) \<Rightarrow>
          Inr (p\<lparr>p_args := fixed_args @
            (case a of ArgString s \<Rightarrow> map (\<lambda>c. [c]) s | ArgSeq xs \<Rightarrow> map (pystr fstr) xs)\<rparr>)
      | Inl e \<Rightarrow> Inl e)"

definition args_getter :: "player \<Rightarrow> string list" where
  "args_getter p = drop 7 (p_args p)"

section \<open>The value object Step\<close>

text \<open>
  C9. \<^verbatim>\<open>Step(value, direction)\<close> raises a type error exactly when \<open>value\<close> is not an
  instance of \<^verbatim>\<open>int\<close> or \<^verbatim>\<open>float\<close>, or \<open>direction\<close> is not an instance of \<^verbatim>\<open>int\<close>;
  a boolean counts as an \<^verbatim>\<open>int\<close> in both positions, so \<^verbatim>\<open>Step(b1, b2)\<close> succeeds for
  all booleans, and no other kind of error is raised.
\<close>

theorem Step_init_type_error:
  "((\<exists>m. Step_init v d = Inl (TypeError m)) \<longleftrightarrow>
      \<not> (isinstance v TInt \<or> isinstance v TFloat) \<or> \<not> isinstance d TInt)
   \<and> ((\<exists>e. Step_init v d = Inl e) \<longleftrightarrow> (\<exists>m. Step_init v d = Inl (TypeError m)))
   \<and> isinstance (PBool b1) TInt \<and> isinstance (PBool b2) TInt
   \<and> Step_init (PBool b1) (PBool b2) = Inr \<lparr>s_val = PBool b1, s_dir = PBool b2\<rparr>
   \<and> (isinstance v TInt \<longleftrightarrow> (\<exists>b. v = PBool b) \<or> (\<exists>i. v = PInt i))
   \<and> (isinstance v TFloat \<longleftrightarrow> (\<exists>r. v = PFloat r))"
  by (cases v; cases d) (auto simp: Step_init_def isinstance_any_def)

theorem Step_init_type_error_witness:
  "Step_init (PBool True) (PBool False) = Inr \<lparr>s_val = PBool True, s_dir = PBool False\<rparr>
   \<and> (\<exists>m. Step_init (PStr ''x'') (PInt 1) = Inl (TypeError m))
   \<and> (\<exists>m. Step_init (PInt 1) (PFloat 1) = Inl (TypeError m))"
  using Step_init_type_error [of "PStr ''x''" "PInt 1" True False]
    Step_init_type_error [of "PInt 1" "PFloat 1" True False]
  by simp

section \<open>Registration of subscribers\<close>

lemma rstrip_Nil: "rstrip [] = []"
  by (simp add: rstrip_def)

lemma call_subscribers_eq:
  "call_subscribers ss data w = w\<lparr>delivered := delivered w @ map (\<lambda>s. (s, data)) ss\<rparr>"
  by (induction ss arbitrary: w) simp_all

lemma count_list_map_pair:
  "count_list (map (\<lambda>s. (s, d)) ss) (x, d) = count_list ss x"
  by (induction ss) simp_all

lemma count_list_distinct: "distinct ss \<Longrightarrow> x \<in> set ss \<Longrightarrow> count_list ss x = 1"
  by (induction ss) (auto simp: count_list_0_iff)

lemma hook_distinct:
  "distinct (fw_subscribers fw) \<Longrightarrow> hook fw s = Inr (b, fw') \<Longrightarrow> distinct (fw_subscribers fw')"
  by (auto simp: hook_def split: subscriber.splits if_splits)

lemma unhook_distinct:
  "distinct (fw_subscribers fw) \<Longrightarrow> distinct (fw_subscribers (snd (unhook fw s)))"
  by (simp add: unhook_def)

lemma FileWrapper_init_distinct: "distinct (fw_subscribers FileWrapper_init)"
  by (simp add: FileWrapper_init_def)

text \<open>
  C7. \<^verbatim>\<open>hook\<close> of an object that cannot be called fails with a type error, and no
  wrapper with a new registration results. \<^verbatim>\<open>hook\<close> of a callback that is not registered
  appends it and returns \<^verbatim>\<open>True\<close>; of one that is registered it changes nothing and returns
  \<^verbatim>\<open>False\<close>, so a second \<^verbatim>\<open>hook\<close> of the same callback is of that kind, and the callback
  is registered exactly once (the list of subscribers holds no duplicates: it starts
  empty, and \<^verbatim>\<open>hook\<close> and \<^verbatim>\<open>unhook\<close> keep it so). \<^verbatim>\<open>unhook\<close> of a registered subscriber
  removes it and returns \<^verbatim>\<open>True\<close>; of one that is not registered it changes nothing and
  returns \<^verbatim>\<open>False\<close>.
\<close>

theorem hook_unhook:
  "(\<not> has_call s \<longrightarrow> (\<exists>m. hook fw s = Inl (TypeError m)))
   \<and> (has_call s \<and> s \<notin> set (fw_subscribers fw) \<longrightarrow>
        hook fw s = Inr (True, fw\<lparr>fw_subscribers := fw_subscribers fw @ [s]\<rparr>))
   \<and> (has_call s \<and> s \<in> set (fw_subscribers fw) \<longrightarrow> hook fw s = Inr (False, fw))
   \<and> (\<forall>b fw'. hook fw s = Inr (b, fw') \<longrightarrow>
        hook fw' s = Inr (False, fw')
        \<and> (distinct (fw_subscribers fw) \<longrightarrow>
             distinct (fw_subscribers fw') \<and> count_list (fw_subscribers fw') s = 1))
   \<and> (s \<in> set (fw_subscribers fw) \<longrightarrow>
        unhook fw s = (True, fw\<lparr>fw_subscribers := remove1 s (fw_subscribers fw)\<rparr>)
        \<and> (distinct (fw_subscribers fw) \<longrightarrow>
             s \<notin> set (fw_subscribers (snd (unhook fw s)))
             \<and> set (fw_subscribers (snd (unhook fw s))) = set (fw_subscribers fw) - {s}
             \<and> distinct (fw_subscribers (snd (unhook fw s)))))
   \<and> (s \<notin> set (fw_subscribers fw) \<longrightarrow> unhook fw s = (False, fw))"
proof -
  have a: "\<not> has_call s \<longrightarrow> (\<exists>m. hook fw s = Inl (TypeError m))"
    by (cases s) (simp_all add: hook_def)
  have b: "has_call s \<and> s \<notin> set (fw_subscribers fw) \<longrightarrow>
        hook fw s = Inr (True, fw\<lparr>fw_subscribers := fw_subscribers fw @ [s]\<rparr>)"
    by (cases s) (simp_all add: hook_def)
  have c: "has_call s \<and> s \<in> set (fw_subscribers fw) \<longrightarrow> hook fw s = Inr (False, fw)"
    by (cases s) (simp_all add: hook_def)
  have d: "\<forall>b fw'. hook fw s = Inr (b, fw') \<longrightarrow>
        hook fw' s = Inr (False, fw')
        \<and> (distinct (fw_subscribers fw) \<longrightarrow>
             distinct (fw_subscribers fw') \<and> count_list (fw_subscribers fw') s = 1)"
    by (cases s) (auto simp: hook_def count_list_distinct count_list_0_iff split: if_splits)
  have e: "s \<in> set (fw_subscribers fw) \<longrightarrow>
        unhook fw s = (True, fw\<lparr>fw_subscribers := remove1 s (fw_subscribers fw)\<rparr>)
        \<and> (distinct (fw_subscribers fw) \<longrightarrow>
             s \<notin> set (fw_subscribers (snd (unhook fw s)))
             \<and> set (fw_subscribers (snd (unhook fw s))) = set (fw_subscribers fw) - {s}
             \<and> distinct (fw_subscribers (snd (unhook fw s))))"
    by (simp add: unhook_def)
  have f: "s \<notin> set (fw_subscribers fw) \<longrightarrow> unhook fw s = (False, fw)"
    by (simp add: unhook_def)
  from a b c d e f show ?thesis by blast
qed

theorem hook_unhook_witness:
  "hook FileWrapper_init (Callback 7)
     = Inr (True, \<lparr>fw_file = None, fw_lock = False, fw_subscribers = [Callback 7]\<rparr>)
   \<and> hook \<lparr>fw_file = None, fw_lock = False, fw_subscribers = [Callback 7]\<rparr> (Callback 7)
     = Inr (False, \<lparr>fw_file = None, fw_lock = False, fw_subscribers = [Callback 7]\<rparr>)
   \<and> (\<exists>m. hook FileWrapper_init (NotCallable (PInt 3)) = Inl (TypeError m))
   \<and> unhook \<lparr>fw_file = None, fw_lock = False, fw_subscribers = [Callback 7]\<rparr> (Callback 7)
     = (True, FileWrapper_init)
   \<and> unhook FileWrapper_init (Callback 7) = (False, FileWrapper_init)"
  using hook_unhook [of "Callback 7" FileWrapper_init]
    hook_unhook [of "Callback 7" "\<lparr>fw_file = None, fw_lock = False, fw_subscribers = [Callback 7]\<rparr>"]
    hook_unhook [of "NotCallable (PInt 3)" FileWrapper_init]
  by (simp add: FileWrapper_init_def)

section \<open>The exchange, the validation and the line: auxiliary facts\<close>

lemma files_upd_upd:
  "w\<lparr>files := (files w)(f := a)\<rparr>\<lparr>files := (files (w\<lparr>files := (files w)(f := a)\<rparr>))(f := b)\<rparr>
     = w\<lparr>files := (files w)(f := b)\<rparr>"
  by (cases w) simp

lemma read_answer_found:
  "files w f = pre @ l # rest \<Longrightarrow> \<forall>x\<in>set pre. \<not> is_answer key (rstrip x) \<Longrightarrow> is_answer key (rstrip l)
   \<Longrightarrow> read_answer key f w = Some (rstrip l, w\<lparr>files := (files w)(f := rest)\<rparr>)"
proof (induction pre arbitrary: w)
  case Nil
  then show ?case
    by (subst read_answer.simps) (simp add: readline_def decode_def)
next
  case (Cons a pre)
  let ?w = "w\<lparr>files := (files w)(f := pre @ l # rest)\<rparr>"
  have "read_answer key f w = read_answer key f ?w"
    using Cons.prems by (subst read_answer.simps) (simp add: readline_def decode_def)
  also have "\<dots> = Some (rstrip l, ?w\<lparr>files := (files ?w)(f := rest)\<rparr>)"
    using Cons.prems by (intro Cons.IH) simp_all
  finally show ?case
    by (simp only: files_upd_upd)
qed

lemma read_answer_Some_line:
  assumes "read_answer key f w = Some y"
  shows "key \<noteq> [] \<longrightarrow> (\<exists>x\<in>set (files w f). is_answer key (rstrip x))"
proof (rule read_answer.raw_induct
    [where P = "\<lambda>key f w y. key \<noteq> [] \<longrightarrow> (\<exists>x\<in>set (files w f). is_answer key (rstrip x))",
      OF _ assms])
  fix ra key f w y
  assume IH: "\<And>key f w y. ra key f w = Some y \<Longrightarrow>
      key \<noteq> [] \<longrightarrow> (\<exists>x\<in>set (files w f). is_answer key (rstrip x))"
    and body: "(case readline f w of
        (raw, w') \<Rightarrow>
          let res = rstrip (decode raw)
          in if is_answer key res then Some (res, w') else ra key f w') = Some y"
  show "key \<noteq> [] \<longrightarrow> (\<exists>x\<in>set (files w f). is_answer key (rstrip x))"
  proof (intro impI)
    assume k: "key \<noteq> []"
    then have e: "\<not> is_answer key []"
      by (auto simp: is_answer_def startswith_def)
    show "\<exists>x\<in>set (files w f). is_answer key (rstrip x)"
    proof (cases "files w f")
      case Nil
      with body e have "ra key f w = Some y"
        by (simp add: readline_def decode_def rstrip_Nil)
      from IH [OF this] k Nil show ?thesis by simp
    next
      case (Cons l ls)
      show ?thesis
      proof (cases "is_answer key (rstrip l)")
        case True
        with Cons show ?thesis by simp
      next
        case False
        with body Cons have "ra key f (w\<lparr>files := (files w)(f := ls)\<rparr>) = Some y"
          by (simp add: readline_def decode_def)
        from IH [OF this] k Cons show ?thesis by simp
      qed
    qed
  qed
qed

lemma read_answer_diverges:
  "key \<noteq> [] \<Longrightarrow> \<forall>x\<in>set (files w f). \<not> is_answer key (rstrip x) \<Longrightarrow> read_answer key f w = None"
  using read_answer_Some_line [of key f w] by (cases "read_answer key f w") auto

lemma check_types_mismatch:
  assumes "types \<noteq> []" "i < length args" "i < length types"
    "\<not> isinstance (args ! i) (types ! i)"
  shows "check_types args types =
    Some (AttributeError ([CHR 0x27] @ ''map'' @ [CHR 0x27] @
      '' object has no attribute '' @ [CHR 0x27] @ ''index'' @ [CHR 0x27]))"
proof -
  let ?bs = "map_isinstance args (take (length args) types)"
  have len: "i < length ?bs"
    using assms(2,3) by (simp add: map_isinstance_def)
  have "?bs ! i = isinstance (args ! i) (types ! i)"
    using assms(2,3) by (simp add: map_isinstance_def)
  with assms(4) len have "\<not> list_all (\<lambda>b. b) ?bs"
    by (auto simp: list_all_length)
  then show ?thesis
    using assms(1) by (simp add: check_types_def)
qed

lemma check_types_ok:
  assumes "\<forall>i. i < length args \<and> i < length types \<longrightarrow> isinstance (args ! i) (types ! i)"
  shows "check_types args types = None"
proof -
  have "list_all (\<lambda>b. b) (map_isinstance args (take (length args) types))"
    using assms by (auto simp: list_all_length map_isinstance_def)
  then show ?thesis
    by (simp add: check_types_def)
qed

lemma check_types_empty: "check_types args [] = None"
  by (simp add: check_types_def)

lemma join_tokens: "join sep (x # xs) = x @ concat (map (\<lambda>a. sep @ a) xs)"
  by (induction xs arbitrary: x) simp_all

lemma wire_line_plain:
  "name \<notin> {''quit'', ''pause'', ''stop''} \<Longrightarrow>
   wire_line fstr prefix name args =
     prefix @ '' '' @ name @ concat (map (\<lambda>a. '' '' @ render fstr a) args) @ [CHR '' '', CHR 0x0A]"
  by (simp add: wire_line_def encode_def join_tokens comp_def del: join.simps)

lemma wire_line_bare:
  "name \<in> {''quit'', ''pause'', ''stop''} \<Longrightarrow>
   wire_line fstr prefix name args =
     name @ concat (map (\<lambda>a. '' '' @ render fstr a) args) @ [CHR '' '', CHR 0x0A]"
  by (auto simp: wire_line_def encode_def join_tokens comp_def simp del: join.simps)

lemma strip_decomp:
  assumes "set a \<subseteq> set cs" "set b \<subseteq> set cs" "t = [] \<or> hd t \<notin> set cs \<and> last t \<notin> set cs"
  shows "strip cs (a @ t @ b) = t"
proof (cases "t = []")
  case True
  have D: "dropWhile (\<lambda>c. c \<in> set cs) (a @ b) = []"
    unfolding dropWhile_eq_Nil_conv using assms(1,2) by auto
  have "strip cs (a @ b) = []"
    unfolding strip_def D by simp
  with True show ?thesis by simp
next
  case False
  with assms(3) have h: "hd t \<notin> set cs" and l: "last t \<notin> set cs" by auto
  have 1: "dropWhile (\<lambda>c. c \<in> set cs) (a @ t @ b) = t @ b"
  proof -
    have "dropWhile (\<lambda>c. c \<in> set cs) (a @ t @ b) = dropWhile (\<lambda>c. c \<in> set cs) (t @ b)"
      using assms(1) by (intro dropWhile_append2) auto
    also have "\<dots> = t @ b"
      using False h by (cases t) auto
    finally show ?thesis .
  qed
  have 2: "dropWhile (\<lambda>c. c \<in> set cs) (rev b @ rev t) = rev t"
  proof -
    have "dropWhile (\<lambda>c. c \<in> set cs) (rev b @ rev t) = dropWhile (\<lambda>c. c \<in> set cs) (rev t)"
      using assms(2) by (intro dropWhile_append2) auto
    also have "\<dots> = rev t"
      using False l by (cases "rev t") (auto simp: last_rev hd_rev)
    finally show ?thesis .
  qed
  show ?thesis by (simp add: strip_def 1 2)
qed

lemma partition_tail_found:
  "c \<notin> set k \<Longrightarrow> partition_tail c (k @ c # v) = v"
proof -
  assume "c \<notin> set k"
  then have "dropWhile (\<lambda>x. x \<noteq> c) (k @ c # v) = dropWhile (\<lambda>x. x \<noteq> c) (c # v)"
    by (intro dropWhile_append2) auto
  then show ?thesis by (simp add: partition_tail_def)
qed

lemma partition_tail_absent:
  "c \<notin> set s \<Longrightarrow> partition_tail c s = []"
proof -
  assume "c \<notin> set s"
  then have "dropWhile (\<lambda>x. x \<noteq> c) s = []"
    unfolding dropWhile_eq_Nil_conv by auto
  then show ?thesis
    unfolding partition_tail_def by (simp only: list.simps)
qed

lemma is_alive_iff: "is_alive p \<longleftrightarrow> (\<exists>pr. p_proc p = Some pr \<and> returncode pr = None)"
  by (simp add: is_alive_def split: option.splits)

lemma command_dead:
  "\<not> is_alive p \<or> name = [] \<Longrightarrow> command fstr p w name args types prefix = Some (Returned None, p, w)"
  by (auto simp: command_def split: option.splits)

lemma command_raise:
  "is_alive p \<Longrightarrow> name \<noteq> [] \<Longrightarrow> check_types (filter (\<lambda>x. x \<noteq> PNone) args) types = Some e \<Longrightarrow>
   command fstr p w name args types prefix = Some (Raised e, p, w)"
  by (auto simp: command_def is_alive_iff)

lemma command_send:
  "p_proc p = Some pr \<Longrightarrow> returncode pr = None \<Longrightarrow> name \<noteq> [] \<Longrightarrow> \<not> startswith name ''get_'' \<Longrightarrow>
   check_types (filter (\<lambda>x. x \<noteq> PNone) args) types = None \<Longrightarrow>
   command fstr p w name args types prefix =
     Some (Returned None,
       p\<lparr>p_proc := Some (pr\<lparr>stdin := stdin pr @
         [wire_line fstr (case prefix of None \<Rightarrow> command_prefix p | Some x \<Rightarrow> x) name
            (filter (\<lambda>x. x \<noteq> PNone) args)]\<rparr>)\<rparr>, w)"
  by (simp add: command_def is_alive_def Let_def)

lemma lock_restored:
  "\<not> fw_lock (p_stdout p) \<Longrightarrow>
   p\<lparr>p_proc := x, p_stdout := (p_stdout p)\<lparr>fw_lock := True\<rparr>,
      p_stdout := (p_stdout p)\<lparr>fw_lock := True, fw_lock := False\<rparr>\<rparr> = p\<lparr>p_proc := x\<rparr>"
  by (cases p; cases "p_stdout p") simp

lemma command_get:
  "p_proc p = Some pr \<Longrightarrow> returncode pr = None \<Longrightarrow> startswith name ''get_'' \<Longrightarrow>
   stdout pr = Some f \<Longrightarrow> \<not> fw_lock (p_stdout p) \<Longrightarrow>
   check_types (filter (\<lambda>x. x \<noteq> PNone) args) types = None \<Longrightarrow>
   read_answer (''ANS_'' @ (case filter (\<lambda>x. x \<noteq> PNone) args of [] \<Rightarrow> [] | a # _ \<Rightarrow> pystr fstr a)) f w
     = Some (res, w') \<Longrightarrow>
   command fstr p w name args types prefix =
     Some (Returned (answer res),
       p\<lparr>p_proc := Some (pr\<lparr>stdin := stdin pr @
         [wire_line fstr (case prefix of None \<Rightarrow> command_prefix p | Some x \<Rightarrow> x) name
            (filter (\<lambda>x. x \<noteq> PNone) args)]\<rparr>)\<rparr>, w')"
proof -
  assume a: "p_proc p = Some pr" "returncode pr = None" "startswith name ''get_''"
    "stdout pr = Some f" "\<not> fw_lock (p_stdout p)"
    "check_types (filter (\<lambda>x. x \<noteq> PNone) args) types = None"
    "read_answer (''ANS_'' @ (case filter (\<lambda>x. x \<noteq> PNone) args of [] \<Rightarrow> [] | a # _ \<Rightarrow> pystr fstr a)) f w
     = Some (res, w')"
  from a(3) have n: "name \<noteq> []" by (auto simp: startswith_def)
  show ?thesis
    using a n by (simp add: command_def is_alive_def Let_def lock_restored)
qed

lemma command_transmits:
  assumes "command fstr p w name args types prefix = Some (out, p', w')" "p_proc p = Some pr"
  shows "p' = p \<or>
     p' = p\<lparr>p_proc := Some (pr\<lparr>stdin := stdin pr @
         [wire_line fstr (case prefix of None \<Rightarrow> command_prefix p | Some x \<Rightarrow> x) name
            (filter (\<lambda>x. x \<noteq> PNone) args)]\<rparr>)\<rparr>"
  using assms
  by (auto simp: command_def Let_def lock_restored split: option.splits if_splits)

lemma read_answer_delivered:
  assumes "read_answer key f w = Some y"
  shows "delivered (snd y) = delivered w"
proof (rule read_answer.raw_induct
    [where P = "\<lambda>key f w y. delivered (snd y) = delivered w", OF _ assms])
  fix ra key f w y
  assume IH: "\<And>key f w y. ra key f w = Some y \<Longrightarrow> delivered (snd y) = delivered w"
    and body: "(case readline f w of
        (raw, w') \<Rightarrow>
          let res = rstrip (decode raw)
          in if is_answer key res then Some (res, w') else ra key f w') = Some y"
  show "delivered (snd y) = delivered w"
  proof (cases "files w f")
    case Nil
    with body show ?thesis
      by (auto simp: readline_def Let_def split: if_splits dest: IH)
  next
    case (Cons l ls)
    with body show ?thesis
      by (auto simp: readline_def Let_def split: if_splits dest: IH)
  qed
qed

lemma command_delivered:
  assumes "command fstr p w name args types prefix = Some (out, p', w')"
  shows "delivered w' = delivered w"
  using assms
  by (auto simp: command_def Let_def split: option.splits if_splits dest: read_answer_delivered)

section \<open>The publisher\<close>

text \<open>
  C1. \<^verbatim>\<open>publish\<close> always returns \<^verbatim>\<open>True\<close>. With no file attached, or with the lock
  held, it reads nothing and calls nobody: the world is unchanged, so a line that a query
  consumes while it holds the lock is not delivered. At the end of the file, and on a line
  that is empty once its trailing whitespace is stripped, nobody is called. Otherwise the
  one line read, stripped, is handed to every registered subscriber in the order of
  registration, once for each registration; as the subscribers are pairwise distinct,
  that is exactly once for each subscriber. The exchange of a getter, which reads its
  lines while it holds the lock, calls nobody either.
\<close>

theorem publish_delivers:
  "fst (publish fw w) = True
   \<and> (fw_lock fw \<or> fw_file fw = None \<longrightarrow> publish fw w = (True, w))
   \<and> (\<not> fw_lock fw \<and> fw_file fw = Some f \<and> files w f = [] \<longrightarrow> publish fw w = (True, w))
   \<and> (\<not> fw_lock fw \<and> fw_file fw = Some f \<and> files w f = l # ls \<and> rstrip l = [] \<longrightarrow>
        publish fw w = (True, w\<lparr>files := (files w)(f := ls)\<rparr>))
   \<and> (\<not> fw_lock fw \<and> fw_file fw = Some f \<and> files w f = l # ls \<and> rstrip l \<noteq> [] \<longrightarrow>
        publish fw w =
          (True, w\<lparr>files := (files w)(f := ls),
                     delivered := delivered w @ map (\<lambda>s. (s, rstrip l)) (fw_subscribers fw)\<rparr>)
        \<and> (distinct (fw_subscribers fw) \<longrightarrow>
             (\<forall>s \<in> set (fw_subscribers fw).
                count_list (map (\<lambda>s. (s, rstrip l)) (fw_subscribers fw)) (s, rstrip l) = 1)))
   \<and> (\<forall>out p' w'. command fstr p w name args types prefix = Some (out, p', w') \<longrightarrow>
        delivered w' = delivered w)"
proof -
  have "fst (publish fw w) = True
   \<and> (fw_lock fw \<or> fw_file fw = None \<longrightarrow> publish fw w = (True, w))
   \<and> (\<not> fw_lock fw \<and> fw_file fw = Some f \<and> files w f = [] \<longrightarrow> publish fw w = (True, w))
   \<and> (\<not> fw_lock fw \<and> fw_file fw = Some f \<and> files w f = l # ls \<and> rstrip l = [] \<longrightarrow>
        publish fw w = (True, w\<lparr>files := (files w)(f := ls)\<rparr>))
   \<and> (\<not> fw_lock fw \<and> fw_file fw = Some f \<and> files w f = l # ls \<and> rstrip l \<noteq> [] \<longrightarrow>
        publish fw w =
          (True, w\<lparr>files := (files w)(f := ls),
                     delivered := delivered w @ map (\<lambda>s. (s, rstrip l)) (fw_subscribers fw)\<rparr>)
        \<and> (distinct (fw_subscribers fw) \<longrightarrow>
             (\<forall>s \<in> set (fw_subscribers fw).
                count_list (map (\<lambda>s. (s, rstrip l)) (fw_subscribers fw)) (s, rstrip l) = 1)))"
    by (cases "fw_lock fw"; cases "fw_file fw"; cases "files w f")
      (auto simp: publish_def readline_def decode_def call_subscribers_eq Let_def rstrip_Nil
        count_list_map_pair count_list_distinct split: list.splits)
  moreover have "\<forall>out p' w'. command fstr p w name args types prefix = Some (out, p', w') \<longrightarrow>
        delivered w' = delivered w"
    using command_delivered [of fstr p w name args types prefix] by blast
  ultimately show ?thesis by blast
qed

theorem publish_delivers_witness:
  "publish \<lparr>fw_file = Some 0, fw_lock = False, fw_subscribers = [Callback 1, Callback 2]\<rparr>
     \<lparr>files = (\<lambda>_. [])(0 := [''EOF code: 1'' @ [CHR 0x0A]]), delivered = []\<rparr>
   = (True, \<lparr>files = (\<lambda>_. [])(0 := []),
        delivered = [(Callback 1, ''EOF code: 1''), (Callback 2, ''EOF code: 1'')]\<rparr>)
   \<and> publish \<lparr>fw_file = Some 0, fw_lock = True, fw_subscribers = [Callback 1, Callback 2]\<rparr>
     \<lparr>files = (\<lambda>_. [])(0 := [''EOF code: 1'' @ [CHR 0x0A]]), delivered = []\<rparr>
   = (True, \<lparr>files = (\<lambda>_. [])(0 := [''EOF code: 1'' @ [CHR 0x0A]]), delivered = []\<rparr>)"
  using
    publish_delivers [where fw = "\<lparr>fw_file = Some 0, fw_lock = False, fw_subscribers = [Callback 1, Callback 2]\<rparr>"
      and w = "\<lparr>files = (\<lambda>_. [])(0 := [''EOF code: 1'' @ [CHR 0x0A]]), delivered = []\<rparr>"
      and f = 0 and l = "''EOF code: 1'' @ [CHR 0x0A]" and ls = "[]"]
    publish_delivers [where fw = "\<lparr>fw_file = Some 0, fw_lock = True, fw_subscribers = [Callback 1, Callback 2]\<rparr>"
      and w = "\<lparr>files = (\<lambda>_. [])(0 := [''EOF code: 1'' @ [CHR 0x0A]]), delivered = []\<rparr>"
      and f = 0 and l = "[]" and ls = "[]"]
  by (simp add: rstrip_def is_space_def)

section \<open>The command channel\<close>

text \<open>
  C5. When the process is not alive (there is no process, or \<^verbatim>\<open>poll()\<close> reports an exit
  code) or the name is empty, \<^verbatim>\<open>_command\<close> returns \<^verbatim>\<open>None\<close>: it raises nothing, writes
  nothing, and the player and the world are as before.
\<close>

theorem command_noop:
  "(\<not> is_alive p \<or> name = [] \<longrightarrow>
      command fstr p w name args types prefix = Some (Returned None, p, w))
   \<and> (is_alive p \<longleftrightarrow> (\<exists>pr. p_proc p = Some pr \<and> returncode pr = None))"
  using command_dead [of p name fstr w args types prefix] is_alive_iff [of p] by blast

theorem command_noop_witness:
  "command (\<lambda>r. ''0.0'')
     \<lparr>p_args = [], p_stdout = FileWrapper_init, p_stderr = FileWrapper_init,
      p_proc = Some \<lparr>returncode = Some 0, stdin = [], stdout = Some 0\<rparr>,
      command_prefix = ''pausing_keep_force''\<rparr>
     \<lparr>files = (\<lambda>_. []), delivered = []\<rparr> ''pause'' [] [] None
   = Some (Returned None,
     \<lparr>p_args = [], p_stdout = FileWrapper_init, p_stderr = FileWrapper_init,
      p_proc = Some \<lparr>returncode = Some 0, stdin = [], stdout = Some 0\<rparr>,
      command_prefix = ''pausing_keep_force''\<rparr>,
     \<lparr>files = (\<lambda>_. []), delivered = []\<rparr>)"
  using command_noop [of "\<lparr>p_args = [], p_stdout = FileWrapper_init, p_stderr = FileWrapper_init,
      p_proc = Some \<lparr>returncode = Some 0, stdin = [], stdout = Some 0\<rparr>,
      command_prefix = ''pausing_keep_force''\<rparr>" "''pause''" "\<lambda>r. ''0.0''"
      "\<lparr>files = (\<lambda>_. []), delivered = []\<rparr>" "[]" "[]" None]
  by simp

text \<open>
  C2. A getter sent while the process is alive and has a standard output, the lock being
  free and the arguments well typed: the exchange reads lines up to the first one that,
  stripped of trailing whitespace, starts with \<^verbatim>\<open>ANS_\<close> followed by the string form of the
  first argument that is not \<^verbatim>\<open>None\<close> (with \<^verbatim>\<open>ANS_\<close> alone when there is none) or starts
  with \<^verbatim>\<open>ANS_ERROR\<close>; the call returns, and the lines up to that one are consumed. The value
  is what follows the first \<^verbatim>\<open>=\<close> of that line, the quote characters at both ends taken
  off, and \<^verbatim>\<open>None\<close> where that payload is \<^verbatim>\<open>(null)\<close>, \<^verbatim>\<open>PROPERTY_UNAVAILABLE\<close> or
  \<^verbatim>\<open>PROPERTY_UNKNOWN\<close>; a line with no \<^verbatim>\<open>=\<close> gives the empty string.
\<close>

theorem getter_exchange:
  assumes "p_proc p = Some pr" and "returncode pr = None" and "startswith name ''get_''"
    and "stdout pr = Some f" and "\<not> fw_lock (p_stdout p)"
    and "check_types (filter (\<lambda>x. x \<noteq> PNone) args) types = None"
    and "key = ''ANS_'' @ (case filter (\<lambda>x. x \<noteq> PNone) args of [] \<Rightarrow> [] | a # _ \<Rightarrow> pystr fstr a)"
    and "files w f = pre @ l # rest"
    and "\<forall>x\<in>set pre. \<not> (startswith (rstrip x) key \<or> startswith (rstrip x) ''ANS_ERROR'')"
    and "startswith (rstrip l) key \<or> startswith (rstrip l) ''ANS_ERROR''"
  shows "(\<exists>p'. command fstr p w name args types prefix =
            Some (Returned (answer (rstrip l)), p', w\<lparr>files := (files w)(f := rest)\<rparr>))
    \<and> (\<forall>k a t b. rstrip l = k @ CHR ''='' # a @ t @ b \<and> CHR ''='' \<notin> set k
          \<and> set a \<subseteq> {CHR 0x27, CHR 0x22} \<and> set b \<subseteq> {CHR 0x27, CHR 0x22}
          \<and> (t = [] \<or> hd t \<notin> {CHR 0x27, CHR 0x22} \<and> last t \<notin> {CHR 0x27, CHR 0x22}) \<longrightarrow>
          answer (rstrip l) =
            (if t \<in> {''(null)'', ''PROPERTY_UNAVAILABLE'', ''PROPERTY_UNKNOWN''} then None
             else Some t))
    \<and> (CHR ''='' \<notin> set (rstrip l) \<longrightarrow> answer (rstrip l) = Some [])"
proof (intro conjI allI impI)
  have "read_answer key f w = Some (rstrip l, w\<lparr>files := (files w)(f := rest)\<rparr>)"
    using assms(8-10) by (intro read_answer_found) (simp_all add: is_answer_def)
  then have ra: "read_answer (''ANS_'' @
        (case filter (\<lambda>x. x \<noteq> PNone) args of [] \<Rightarrow> [] | a # _ \<Rightarrow> pystr fstr a)) f w =
      Some (rstrip l, w\<lparr>files := (files w)(f := rest)\<rparr>)"
    using assms(7) by simp
  from command_get [OF assms(1-6) ra]
  show "\<exists>p'. command fstr p w name args types prefix =
            Some (Returned (answer (rstrip l)), p', w\<lparr>files := (files w)(f := rest)\<rparr>)"
    by blast
next
  fix k a t b
  assume h: "rstrip l = k @ CHR ''='' # a @ t @ b \<and> CHR ''='' \<notin> set k
          \<and> set a \<subseteq> {CHR 0x27, CHR 0x22} \<and> set b \<subseteq> {CHR 0x27, CHR 0x22}
          \<and> (t = [] \<or> hd t \<notin> {CHR 0x27, CHR 0x22} \<and> last t \<notin> {CHR 0x27, CHR 0x22})"
  then have "partition_tail (CHR ''='') (rstrip l) = a @ t @ b"
    by (simp add: partition_tail_found)
  moreover have "strip [CHR 0x27, CHR 0x22] (a @ t @ b) = t"
    using h by (intro strip_decomp) auto
  ultimately show "answer (rstrip l) =
            (if t \<in> {''(null)'', ''PROPERTY_UNAVAILABLE'', ''PROPERTY_UNKNOWN''} then None
             else Some t)"
    by (simp add: answer_def)
next
  assume "CHR ''='' \<notin> set (rstrip l)"
  then have "partition_tail (CHR ''='') (rstrip l) = []"
    by (rule partition_tail_absent)
  then show "answer (rstrip l) = Some []"
    by (simp add: answer_def strip_def)
qed

theorem getter_exchange_witness:
  "\<exists>p'. command (\<lambda>r. ''0.0'')
       \<lparr>p_args = [], p_stdout = FileWrapper_init, p_stderr = FileWrapper_init,
      p_proc = Some \<lparr>returncode = None, stdin = [], stdout = Some 0\<rparr>,
      command_prefix = ''pausing_keep_force''\<rparr>
       \<lparr>files = (\<lambda>_. [])(0 := [''noise'' @ [CHR 0x0A], ''ANS_volume=50.0'' @ [CHR 0x0A], ''more'']),
      delivered = []\<rparr>
       ''get_property'' [PStr ''volume''] [] None
     = Some (Returned (Some ''50.0''), p', \<lparr>files = (\<lambda>_. [])(0 := [''more'']), delivered = []\<rparr>)"
proof -
  have "(\<exists>p'. command (\<lambda>r. ''0.0'')
       \<lparr>p_args = [], p_stdout = FileWrapper_init, p_stderr = FileWrapper_init,
      p_proc = Some \<lparr>returncode = None, stdin = [], stdout = Some 0\<rparr>,
      command_prefix = ''pausing_keep_force''\<rparr>
       \<lparr>files = (\<lambda>_. [])(0 := [''noise'' @ [CHR 0x0A], ''ANS_volume=50.0'' @ [CHR 0x0A], ''more'']),
      delivered = []\<rparr>
       ''get_property'' [PStr ''volume''] [] None
     = Some (Returned (answer (rstrip (''ANS_volume=50.0'' @ [CHR 0x0A]))), p',
         \<lparr>files = (\<lambda>_. [])(0 := [''noise'' @ [CHR 0x0A], ''ANS_volume=50.0'' @ [CHR 0x0A], ''more'']),
      delivered = []\<rparr>
         \<lparr>files := (files \<lparr>files = (\<lambda>_. [])(0 := [''noise'' @ [CHR 0x0A], ''ANS_volume=50.0'' @ [CHR 0x0A], ''more'']),
      delivered = []\<rparr>)(0 := [''more''])\<rparr>))"
    by (rule getter_exchange [where pr = "\<lparr>returncode = None, stdin = [], stdout = Some 0\<rparr>"
          and key = "''ANS_volume''" and pre = "[''noise'' @ [CHR 0x0A]]", THEN conjunct1])
      (simp_all add: check_types_def startswith_def rstrip_def is_space_def FileWrapper_init_def)
  moreover have "answer (rstrip (''ANS_volume=50.0'' @ [CHR 0x0A])) = Some ''50.0''"
    by (simp add: answer_def partition_tail_def strip_def rstrip_def is_space_def)
  ultimately show ?thesis by simp
qed

text \<open>
  Where no line of the file answers, the exchange does not return: at the end of the file
  \<^verbatim>\<open>readline\<close> gives the empty string for ever.
\<close>

lemma getter_exchange_diverges:
  assumes "p_proc p = Some pr" and "returncode pr = None" and "startswith name ''get_''"
    and "stdout pr = Some f"
    and "check_types (filter (\<lambda>x. x \<noteq> PNone) args) types = None"
    and "\<forall>x\<in>set (files w f). \<not> is_answer (''ANS_'' @
        (case filter (\<lambda>x. x \<noteq> PNone) args of [] \<Rightarrow> [] | a # _ \<Rightarrow> pystr fstr a)) (rstrip x)"
  shows "command fstr p w name args types prefix = None"
proof -
  from assms(3) have n: "name \<noteq> []" by (auto simp: startswith_def)
  have "read_answer (''ANS_'' @
        (case filter (\<lambda>x. x \<noteq> PNone) args of [] \<Rightarrow> [] | a # _ \<Rightarrow> pystr fstr a)) f w = None"
    using assms(6) by (intro read_answer_diverges) simp_all
  then show ?thesis
    using assms(1-5) n by (simp add: command_def is_alive_def Let_def)
qed

text \<open>
  C3. What the validation of \<^verbatim>\<open>_command\<close> does, on a live process and with a non-empty
  tuple of expected types. The arguments that are not \<^verbatim>\<open>None\<close> are paired in order with
  the types. When some argument is not an instance of its type, the call raises before
  anything is written, the player and the world being as before; but what it raises is
  the \<^verbatim>\<open>AttributeError\<close> of \<^verbatim>\<open>result.index\<close>, and never the type error
  \<^verbatim>\<open>expected <type> for argument <position>\<close> that the next line of the source builds.
  When every argument is an instance of its type, nothing is raised.
\<close>

theorem command_type_mismatch:
  assumes "is_alive p" and "name \<noteq> []" and "types \<noteq> []"
  shows "(\<forall>i. i < length (filter (\<lambda>x. x \<noteq> PNone) args) \<and> i < length types
            \<and> \<not> isinstance (filter (\<lambda>x. x \<noteq> PNone) args ! i) (types ! i) \<longrightarrow>
          command fstr p w name args types prefix =
            Some (Raised (AttributeError ([CHR 0x27] @ ''map'' @ [CHR 0x27] @
              '' object has no attribute '' @ [CHR 0x27] @ ''index'' @ [CHR 0x27])), p, w)
          \<and> command fstr p w name args types prefix \<noteq>
            Some (Raised (TypeError (''expected '' @ type_name (types ! i) @ '' for argument '' @
                    str_int (int i + 1))), p, w))
    \<and> ((\<forall>i. i < length (filter (\<lambda>x. x \<noteq> PNone) args) \<and> i < length types \<longrightarrow>
            isinstance (filter (\<lambda>x. x \<noteq> PNone) args ! i) (types ! i)) \<longrightarrow>
         (\<forall>e p' w'. command fstr p w name args types prefix \<noteq> Some (Raised e, p', w')))"
proof (intro conjI allI impI)
  fix i
  assume h: "i < length (filter (\<lambda>x. x \<noteq> PNone) args) \<and> i < length types
            \<and> \<not> isinstance (filter (\<lambda>x. x \<noteq> PNone) args ! i) (types ! i)"
  then have "check_types (filter (\<lambda>x. x \<noteq> PNone) args) types =
      Some (AttributeError ([CHR 0x27] @ ''map'' @ [CHR 0x27] @
              '' object has no attribute '' @ [CHR 0x27] @ ''index'' @ [CHR 0x27]))"
    using assms(3) by (intro check_types_mismatch) auto
  then show c: "command fstr p w name args types prefix =
            Some (Raised (AttributeError ([CHR 0x27] @ ''map'' @ [CHR 0x27] @
              '' object has no attribute '' @ [CHR 0x27] @ ''index'' @ [CHR 0x27])), p, w)"
    using assms(1,2) by (rule command_raise [rotated 2])
  show "command fstr p w name args types prefix \<noteq>
            Some (Raised (TypeError (''expected '' @ type_name (types ! i) @ '' for argument '' @
                    str_int (int i + 1))), p, w)"
    unfolding c by simp
next
  fix e p' w'
  assume "\<forall>i. i < length (filter (\<lambda>x. x \<noteq> PNone) args) \<and> i < length types \<longrightarrow>
            isinstance (filter (\<lambda>x. x \<noteq> PNone) args ! i) (types ! i)"
  then have "check_types (filter (\<lambda>x. x \<noteq> PNone) args) types = None"
    by (rule check_types_ok)
  then show "command fstr p w name args types prefix \<noteq> Some (Raised e, p', w')"
    by (auto simp: command_def Let_def split: option.splits)
qed

text \<open>
  The generated \<^verbatim>\<open>seek(float0, int1=None, prefix=None)\<close> called with a string: the claim
  has \<^verbatim>\<open>TypeError: expected float for argument 1\<close>.
\<close>

theorem command_type_mismatch_witness:
  "command (\<lambda>r. ''0.0'')
       \<lparr>p_args = [], p_stdout = FileWrapper_init, p_stderr = FileWrapper_init,
      p_proc = Some \<lparr>returncode = None, stdin = [], stdout = Some 0\<rparr>,
      command_prefix = ''pausing_keep_force''\<rparr>
       \<lparr>files = (\<lambda>_. []), delivered = []\<rparr>
       ''seek'' [PStr ''abc'', PNone] [TFloat, TInt] None
     = Some (Raised (AttributeError ([CHR 0x27] @ ''map'' @ [CHR 0x27] @
              '' object has no attribute '' @ [CHR 0x27] @ ''index'' @ [CHR 0x27])),
       \<lparr>p_args = [], p_stdout = FileWrapper_init, p_stderr = FileWrapper_init,
      p_proc = Some \<lparr>returncode = None, stdin = [], stdout = Some 0\<rparr>,
      command_prefix = ''pausing_keep_force''\<rparr>,
       \<lparr>files = (\<lambda>_. []), delivered = []\<rparr>)
   \<and> command (\<lambda>r. ''0.0'')
       \<lparr>p_args = [], p_stdout = FileWrapper_init, p_stderr = FileWrapper_init,
      p_proc = Some \<lparr>returncode = None, stdin = [], stdout = Some 0\<rparr>,
      command_prefix = ''pausing_keep_force''\<rparr>
       \<lparr>files = (\<lambda>_. []), delivered = []\<rparr>
       ''seek'' [PStr ''abc'', PNone] [TFloat, TInt] None
     \<noteq> Some (Raised (TypeError ''expected float for argument 1''),
       \<lparr>p_args = [], p_stdout = FileWrapper_init, p_stderr = FileWrapper_init,
      p_proc = Some \<lparr>returncode = None, stdin = [], stdout = Some 0\<rparr>,
      command_prefix = ''pausing_keep_force''\<rparr>,
       \<lparr>files = (\<lambda>_. []), delivered = []\<rparr>)"
  using command_type_mismatch [where p = "\<lparr>p_args = [], p_stdout = FileWrapper_init, p_stderr = FileWrapper_init,
      p_proc = Some \<lparr>returncode = None, stdin = [], stdout = Some 0\<rparr>,
      command_prefix = ''pausing_keep_force''\<rparr>"
      and name = "''seek''" and types = "[TFloat, TInt]" and args = "[PStr ''abc'', PNone]"
      and fstr = "\<lambda>r. ''0.0''" and w = "\<lparr>files = (\<lambda>_. []), delivered = []\<rparr>" and prefix = None,
      THEN conjunct1, rule_format, of 0]
  by (simp add: is_alive_def)

section \<open>Rendering and the property setters: auxiliary facts\<close>

lemma render_cases:
  "render fstr (PBool True) = ''1''" "render fstr (PBool False) = ''0''"
  "render fstr (PInt i) = str_int i" "render fstr (PFloat r) = fstr r" "render fstr (PStr s) = s"
  by (simp_all add: render_def int_of_bool_def str_int_def digits.simps digit_char_def)

lemma Step_init_not_None:
  "Step_init sv sd = Inr s \<Longrightarrow> s_val s = sv \<and> s_dir s = sd \<and> sv \<noteq> PNone \<and> sd \<noteq> PNone"
  by (cases sv; cases sd) (auto simp: Step_init_def isinstance_any_def split: if_splits)

lemma py_less_numeric:
  "ptype = TInt \<or> ptype = TFloat \<Longrightarrow> isinstance a ptype \<Longrightarrow> isinstance b ptype \<Longrightarrow>
   py_less a b = (num a < num b)"
  by (cases a; cases b) (auto simp: py_less_def)

lemma set_property_name: "''set_property'' \<notin> {''quit'', ''pause'', ''stop''}"
  "\<not> startswith ''set_property'' ''get_''" "''step_property'' \<notin> {''quit'', ''pause'', ''stop''}"
  "\<not> startswith ''step_property'' ''get_''"
  by (simp_all add: startswith_def)

lemma propset_step_line:
  assumes "p_proc p = Some pr" "returncode pr = None" "Step_init sv sd = Inr s"
  shows "propset fstr p w (StepVal s) pname ptype pmin pmax =
     Some (Returned None,
       p\<lparr>p_proc := Some (pr\<lparr>stdin := stdin pr @
         [command_prefix p @ '' step_property '' @ pname @ '' '' @ render fstr sv @ '' '' @
            render fstr sd @ [CHR '' '', CHR 0x0A]]\<rparr>)\<rparr>, w)"
proof -
  from Step_init_not_None [OF assms(3)]
  have e: "s_val s = sv" "s_dir s = sd" "sv \<noteq> PNone" "sd \<noteq> PNone"
    by simp_all
  have "command fstr p w ''step_property'' [PStr pname, sv, sd] [] None =
     Some (Returned None,
       p\<lparr>p_proc := Some (pr\<lparr>stdin := stdin pr @
         [wire_line fstr (command_prefix p) ''step_property'' [PStr pname, sv, sd]]\<rparr>)\<rparr>, w)"
    using command_send [OF assms(1,2), of "''step_property''" "[PStr pname, sv, sd]" "[]" fstr w None]
      e(3,4)
    by (simp add: set_property_name check_types_empty)
  then show ?thesis
    by (simp add: propset_def discard_def wire_line_plain set_property_name render_cases e(1,2))
qed

lemma propset_bool_step_line:
  assumes "p_proc p = Some pr" "returncode pr = None"
  shows "propset_bool fstr p w (StepVal s) pname =
     Some (Returned None,
       p\<lparr>p_proc := Some (pr\<lparr>stdin := stdin pr @
         [command_prefix p @ '' step_property '' @ pname @ [CHR '' '', CHR 0x0A]]\<rparr>)\<rparr>, w)"
proof -
  have "command fstr p w ''step_property'' [PStr pname] [] None =
     Some (Returned None,
       p\<lparr>p_proc := Some (pr\<lparr>stdin := stdin pr @
         [wire_line fstr (command_prefix p) ''step_property'' [PStr pname]]\<rparr>)\<rparr>, w)"
    using command_send [OF assms(1,2), of "''step_property''" "[PStr pname]" "[]" fstr w None]
    by (simp add: set_property_name check_types_empty)
  then show ?thesis
    by (simp add: propset_bool_def discard_def wire_line_plain set_property_name render_cases)
qed

lemma propset_set_line:
  assumes "p_proc p = Some pr" "returncode pr = None" "isinstance v ptype"
    "\<not> (case pmin of None \<Rightarrow> False | Some lo \<Rightarrow> py_less v lo)"
    "\<not> (case pmax of None \<Rightarrow> False | Some hi \<Rightarrow> py_less hi v)"
  shows "propset fstr p w (Val v) pname ptype pmin pmax =
     Some (Returned None,
       p\<lparr>p_proc := Some (pr\<lparr>stdin := stdin pr @
         [command_prefix p @ '' set_property '' @ pname @ '' '' @ render fstr v @
            [CHR '' '', CHR 0x0A]]\<rparr>)\<rparr>, w)"
proof -
  from assms(3) have nn: "v \<noteq> PNone" by (cases v) auto
  have "command fstr p w ''set_property'' [PStr pname, v] [] None =
     Some (Returned None,
       p\<lparr>p_proc := Some (pr\<lparr>stdin := stdin pr @
         [wire_line fstr (command_prefix p) ''set_property'' [PStr pname, v]]\<rparr>)\<rparr>, w)"
    using command_send [OF assms(1,2), of "''set_property''" "[PStr pname, v]" "[]" fstr w None] nn
    by (simp add: set_property_name check_types_empty)
  then show ?thesis
    using assms(3-5)
    by (simp add: propset_def discard_def wire_line_plain set_property_name render_cases)
qed

lemma propset_step_never_raises:
  "\<exists>p'. propset fstr p w (StepVal s) pname ptype pmin pmax = Some (Returned None, p', w)"
  by (auto simp: propset_def discard_def command_def Let_def set_property_name
      check_types_empty split: option.splits)

section \<open>The line, the setters and the argument list\<close>

text \<open>
  C6. The line of a command is the tokens prefix, name, the rendered arguments and the
  newline, joined by single spaces: \<^verbatim>\<open><prefix> <name> <args...>\<close>, then a space and the
  newline that ends it. A boolean is rendered as \<^verbatim>\<open>1\<close> or \<^verbatim>\<open>0\<close>, any other argument by
  its string form, and arguments that are \<^verbatim>\<open>None\<close> are left out. For the names \<^verbatim>\<open>quit\<close>,
  \<^verbatim>\<open>pause\<close> and \<^verbatim>\<open>stop\<close>, and for no other, the line has no prefix, whatever the
  configured or the given prefix is. Every call that returns has written nothing or
  exactly this line, and a command that is not a getter, sent to a live process with
  well-typed arguments, has written it.
\<close>

theorem wire_line_format:
  "(name \<notin> {''quit'', ''pause'', ''stop''} \<longrightarrow>
      wire_line fstr prefix name args =
        prefix @ '' '' @ name @ concat (map (\<lambda>a. '' '' @ render fstr a) args) @ [CHR '' '', CHR 0x0A])
   \<and> (name \<in> {''quit'', ''pause'', ''stop''} \<longrightarrow>
      wire_line fstr prefix name args =
        name @ concat (map (\<lambda>a. '' '' @ render fstr a) args) @ [CHR '' '', CHR 0x0A])
   \<and> render fstr (PBool True) = ''1'' \<and> render fstr (PBool False) = ''0''
   \<and> render fstr (PInt i) = str_int i \<and> render fstr (PFloat r) = fstr r \<and> render fstr (PStr s) = s
   \<and> (\<forall>out p' w' pr. command fstr p w name args types pfx = Some (out, p', w') \<and> p_proc p = Some pr \<longrightarrow>
        p' = p \<or>
        p' = p\<lparr>p_proc := Some (pr\<lparr>stdin := stdin pr @
          [wire_line fstr (case pfx of None \<Rightarrow> command_prefix p | Some x \<Rightarrow> x) name
             (filter (\<lambda>x. x \<noteq> PNone) args)]\<rparr>)\<rparr>)
   \<and> (\<forall>pr. p_proc p = Some pr \<and> returncode pr = None \<and> name \<noteq> [] \<and> \<not> startswith name ''get_''
          \<and> check_types (filter (\<lambda>x. x \<noteq> PNone) args) types = None \<longrightarrow>
        command fstr p w name args types pfx =
          Some (Returned None,
            p\<lparr>p_proc := Some (pr\<lparr>stdin := stdin pr @
              [wire_line fstr (case pfx of None \<Rightarrow> command_prefix p | Some x \<Rightarrow> x) name
                 (filter (\<lambda>x. x \<noteq> PNone) args)]\<rparr>)\<rparr>, w))"
proof -
  have a: "name \<notin> {''quit'', ''pause'', ''stop''} \<longrightarrow>
      wire_line fstr prefix name args =
        prefix @ '' '' @ name @ concat (map (\<lambda>a. '' '' @ render fstr a) args) @ [CHR '' '', CHR 0x0A]"
    using wire_line_plain [of name fstr prefix args] by blast
  have b: "name \<in> {''quit'', ''pause'', ''stop''} \<longrightarrow>
      wire_line fstr prefix name args =
        name @ concat (map (\<lambda>a. '' '' @ render fstr a) args) @ [CHR '' '', CHR 0x0A]"
    using wire_line_bare [of name fstr prefix args] by blast
  have c: "render fstr (PBool True) = ''1'' \<and> render fstr (PBool False) = ''0''
   \<and> render fstr (PInt i) = str_int i \<and> render fstr (PFloat r) = fstr r \<and> render fstr (PStr s) = s"
    by (simp add: render_cases)
  have d: "\<forall>out p' w' pr. command fstr p w name args types pfx = Some (out, p', w') \<and> p_proc p = Some pr \<longrightarrow>
        p' = p \<or>
        p' = p\<lparr>p_proc := Some (pr\<lparr>stdin := stdin pr @
          [wire_line fstr (case pfx of None \<Rightarrow> command_prefix p | Some x \<Rightarrow> x) name
             (filter (\<lambda>x. x \<noteq> PNone) args)]\<rparr>)\<rparr>"
    using command_transmits [of fstr p w name args types pfx] by blast
  have e: "\<forall>pr. p_proc p = Some pr \<and> returncode pr = None \<and> name \<noteq> [] \<and> \<not> startswith name ''get_''
          \<and> check_types (filter (\<lambda>x. x \<noteq> PNone) args) types = None \<longrightarrow>
        command fstr p w name args types pfx =
          Some (Returned None,
            p\<lparr>p_proc := Some (pr\<lparr>stdin := stdin pr @
              [wire_line fstr (case pfx of None \<Rightarrow> command_prefix p | Some x \<Rightarrow> x) name
                 (filter (\<lambda>x. x \<noteq> PNone) args)]\<rparr>)\<rparr>, w)"
    using command_send [of p _ name args types fstr w pfx] by blast
  from a b c d e show ?thesis by blast
qed

theorem wire_line_format_witness:
  "wire_line (\<lambda>r. ''0.0'') ''pausing_keep_force'' ''seek'' [PInt 5, PBool True]
     = ''pausing_keep_force seek 5 1 '' @ [CHR 0x0A]
   \<and> wire_line (\<lambda>r. ''0.0'') ''pausing_keep_force'' ''pause'' [] = ''pause '' @ [CHR 0x0A]
   \<and> command (\<lambda>r. ''0.0'') \<lparr>p_args = [], p_stdout = FileWrapper_init, p_stderr = FileWrapper_init,
      p_proc = Some \<lparr>returncode = None, stdin = [], stdout = Some 0\<rparr>,
      command_prefix = ''pausing_keep_force''\<rparr> \<lparr>files = (\<lambda>_. []), delivered = []\<rparr> ''seek'' [PInt 5, PNone, PBool True] [] (Some ''pausing'')
     = Some (Returned None, \<lparr>p_args = [], p_stdout = FileWrapper_init, p_stderr = FileWrapper_init,
      p_proc = Some \<lparr>returncode = None, stdin = [''pausing seek 5 1 '' @ [CHR 0x0A]], stdout = Some 0\<rparr>,
      command_prefix = ''pausing_keep_force''\<rparr>, \<lparr>files = (\<lambda>_. []), delivered = []\<rparr>)"
  using
    wire_line_format [where fstr = "(\<lambda>r. ''0.0'')" and prefix = "''pausing_keep_force''" and name = "''seek''"
      and args = "[PInt 5, PBool True]" and p = "\<lparr>p_args = [], p_stdout = FileWrapper_init, p_stderr = FileWrapper_init,
      p_proc = Some \<lparr>returncode = None, stdin = [], stdout = Some 0\<rparr>,
      command_prefix = ''pausing_keep_force''\<rparr>" and w = "\<lparr>files = (\<lambda>_. []), delivered = []\<rparr>" and types = "[]" and pfx = None
      and i = 5]
    wire_line_format [where fstr = "(\<lambda>r. ''0.0'')" and prefix = "''pausing_keep_force''" and name = "''pause''"
      and args = "[]" and p = "\<lparr>p_args = [], p_stdout = FileWrapper_init, p_stderr = FileWrapper_init,
      p_proc = Some \<lparr>returncode = None, stdin = [], stdout = Some 0\<rparr>,
      command_prefix = ''pausing_keep_force''\<rparr>" and w = "\<lparr>files = (\<lambda>_. []), delivered = []\<rparr>" and types = "[]" and pfx = None and i = 5]
    wire_line_format [where fstr = "(\<lambda>r. ''0.0'')" and prefix = "''pausing''" and name = "''seek''"
      and args = "[PInt 5, PNone, PBool True]" and p = "\<lparr>p_args = [], p_stdout = FileWrapper_init, p_stderr = FileWrapper_init,
      p_proc = Some \<lparr>returncode = None, stdin = [], stdout = Some 0\<rparr>,
      command_prefix = ''pausing_keep_force''\<rparr>" and w = "\<lparr>files = (\<lambda>_. []), delivered = []\<rparr>" and types = "[]"
      and pfx = "Some ''pausing''" and i = 5, THEN conjunct2, THEN conjunct2, THEN conjunct2,
      THEN conjunct2, THEN conjunct2, THEN conjunct2, THEN conjunct2, THEN conjunct2,
      rule_format, of "\<lparr>returncode = None, stdin = [], stdout = Some 0\<rparr>"]
    wire_line_format [where fstr = "(\<lambda>r. ''0.0'')" and prefix = "''pausing''" and name = "''seek''"
      and args = "[PInt 5, PBool True]" and i = 5, THEN conjunct1]
  by (simp add: check_types_def startswith_def str_int_def digits.simps digit_char_def)

text \<open>
  C4. \<^verbatim>\<open>_propset\<close> with a value that is not a \<^verbatim>\<open>Step\<close>: a value that is not an instance of
  the property's type raises a type error; a value of the type that is below the minimum
  or above the maximum raises a \<^verbatim>\<open>ValueError\<close>; in each case the player and the world are
  as before, so nothing has been written. On a numeric property the comparison is that
  of the numbers. With a \<^verbatim>\<open>Step\<close> nothing is validated and nothing is raised, and, the
  process being alive, the line written is a \<^verbatim>\<open>step_property\<close> line with the magnitude and
  the direction of the step, where a value in range gives a \<^verbatim>\<open>set_property\<close> line.
\<close>

theorem propset_validation:
  "(\<not> isinstance v ptype \<longrightarrow>
      propset fstr p w (Val v) pname ptype pmin pmax =
        Some (Raised (TypeError (''expected '' @ type_name ptype)), p, w))
   \<and> (isinstance v ptype \<and> pmin = Some lo \<and> py_less v lo \<longrightarrow>
      propset fstr p w (Val v) pname ptype pmin pmax =
        Some (Raised (ValueError (''value must be at least '' @ pystr fstr lo)), p, w))
   \<and> (isinstance v ptype \<and> pmin = Some lo \<and> \<not> py_less v lo \<and> pmax = Some hi \<and> py_less hi v \<longrightarrow>
      propset fstr p w (Val v) pname ptype pmin pmax =
        Some (Raised (ValueError (''value must be at most '' @ pystr fstr hi)), p, w))
   \<and> ((pmin = Some lo \<and> py_less v lo) \<or> (pmax = Some hi \<and> py_less hi v) \<longrightarrow>
      (\<exists>m. propset fstr p w (Val v) pname ptype pmin pmax = Some (Raised (TypeError m), p, w)
         \<or> propset fstr p w (Val v) pname ptype pmin pmax = Some (Raised (ValueError m), p, w)))
   \<and> ((ptype = TInt \<or> ptype = TFloat) \<and> isinstance v ptype \<and> isinstance lo ptype
        \<and> isinstance hi ptype \<longrightarrow>
      py_less v lo = (num v < num lo) \<and> py_less hi v = (num hi < num v))
   \<and> (\<exists>p'. propset fstr p w (StepVal s) pname ptype pmin pmax = Some (Returned None, p', w))
   \<and> (p_proc p = Some pr \<and> returncode pr = None \<and> Step_init sv sd = Inr s \<longrightarrow>
      propset fstr p w (StepVal s) pname ptype pmin pmax =
        Some (Returned None,
          p\<lparr>p_proc := Some (pr\<lparr>stdin := stdin pr @
            [command_prefix p @ '' step_property '' @ pname @ '' '' @ render fstr sv @ '' '' @
               render fstr sd @ [CHR '' '', CHR 0x0A]]\<rparr>)\<rparr>, w))
   \<and> (p_proc p = Some pr \<and> returncode pr = None \<and> isinstance v ptype
        \<and> pmin = Some lo \<and> \<not> py_less v lo \<and> pmax = Some hi \<and> \<not> py_less hi v \<longrightarrow>
      propset fstr p w (Val v) pname ptype pmin pmax =
        Some (Returned None,
          p\<lparr>p_proc := Some (pr\<lparr>stdin := stdin pr @
            [command_prefix p @ '' set_property '' @ pname @ '' '' @ render fstr v @
               [CHR '' '', CHR 0x0A]]\<rparr>)\<rparr>, w))"
proof -
  have a: "\<not> isinstance v ptype \<longrightarrow>
      propset fstr p w (Val v) pname ptype pmin pmax =
        Some (Raised (TypeError (''expected '' @ type_name ptype)), p, w)"
    by (simp add: propset_def)
  have b: "isinstance v ptype \<and> pmin = Some lo \<and> py_less v lo \<longrightarrow>
      propset fstr p w (Val v) pname ptype pmin pmax =
        Some (Raised (ValueError (''value must be at least '' @ pystr fstr lo)), p, w)"
    by (simp add: propset_def)
  have c: "isinstance v ptype \<and> pmin = Some lo \<and> \<not> py_less v lo \<and> pmax = Some hi \<and> py_less hi v \<longrightarrow>
      propset fstr p w (Val v) pname ptype pmin pmax =
        Some (Raised (ValueError (''value must be at most '' @ pystr fstr hi)), p, w)"
    by (simp add: propset_def)
  have d: "(pmin = Some lo \<and> py_less v lo) \<or> (pmax = Some hi \<and> py_less hi v) \<longrightarrow>
      (\<exists>m. propset fstr p w (Val v) pname ptype pmin pmax = Some (Raised (TypeError m), p, w)
         \<or> propset fstr p w (Val v) pname ptype pmin pmax = Some (Raised (ValueError m), p, w))"
    by (auto simp: propset_def split: option.splits)
  have e: "(ptype = TInt \<or> ptype = TFloat) \<and> isinstance v ptype \<and> isinstance lo ptype
        \<and> isinstance hi ptype \<longrightarrow>
      py_less v lo = (num v < num lo) \<and> py_less hi v = (num hi < num v)"
    using py_less_numeric [of ptype v lo] py_less_numeric [of ptype hi v] by blast
  have f: "\<exists>p'. propset fstr p w (StepVal s) pname ptype pmin pmax = Some (Returned None, p', w)"
    by (rule propset_step_never_raises)
  have g: "p_proc p = Some pr \<and> returncode pr = None \<and> Step_init sv sd = Inr s \<longrightarrow>
      propset fstr p w (StepVal s) pname ptype pmin pmax =
        Some (Returned None,
          p\<lparr>p_proc := Some (pr\<lparr>stdin := stdin pr @
            [command_prefix p @ '' step_property '' @ pname @ '' '' @ render fstr sv @ '' '' @
               render fstr sd @ [CHR '' '', CHR 0x0A]]\<rparr>)\<rparr>, w)"
    using propset_step_line [of p pr sv sd s fstr w pname ptype pmin pmax] by blast
  have h: "p_proc p = Some pr \<and> returncode pr = None \<and> isinstance v ptype
        \<and> pmin = Some lo \<and> \<not> py_less v lo \<and> pmax = Some hi \<and> \<not> py_less hi v \<longrightarrow>
      propset fstr p w (Val v) pname ptype pmin pmax =
        Some (Returned None,
          p\<lparr>p_proc := Some (pr\<lparr>stdin := stdin pr @
            [command_prefix p @ '' set_property '' @ pname @ '' '' @ render fstr v @
               [CHR '' '', CHR 0x0A]]\<rparr>)\<rparr>, w)"
    using propset_set_line [of p pr v ptype pmin pmax fstr w pname] by auto
  from a b c d e f g h show ?thesis by blast
qed

theorem propset_validation_witness:
  "propset (\<lambda>r. ''0.0'') \<lparr>p_args = [], p_stdout = FileWrapper_init, p_stderr = FileWrapper_init,
      p_proc = Some \<lparr>returncode = None, stdin = [], stdout = Some 0\<rparr>,
      command_prefix = ''pausing_keep_force''\<rparr> \<lparr>files = (\<lambda>_. []), delivered = []\<rparr> (Val (PInt 150)) ''volume'' TInt (Some (PInt 0)) (Some (PInt 100))
     = Some (Raised (ValueError ''value must be at most 100''), \<lparr>p_args = [], p_stdout = FileWrapper_init, p_stderr = FileWrapper_init,
      p_proc = Some \<lparr>returncode = None, stdin = [], stdout = Some 0\<rparr>,
      command_prefix = ''pausing_keep_force''\<rparr>, \<lparr>files = (\<lambda>_. []), delivered = []\<rparr>)
   \<and> propset (\<lambda>r. ''0.0'') \<lparr>p_args = [], p_stdout = FileWrapper_init, p_stderr = FileWrapper_init,
      p_proc = Some \<lparr>returncode = None, stdin = [], stdout = Some 0\<rparr>,
      command_prefix = ''pausing_keep_force''\<rparr> \<lparr>files = (\<lambda>_. []), delivered = []\<rparr> (Val (PFloat 50)) ''volume'' TInt (Some (PInt 0)) (Some (PInt 100))
     = Some (Raised (TypeError ''expected int''), \<lparr>p_args = [], p_stdout = FileWrapper_init, p_stderr = FileWrapper_init,
      p_proc = Some \<lparr>returncode = None, stdin = [], stdout = Some 0\<rparr>,
      command_prefix = ''pausing_keep_force''\<rparr>, \<lparr>files = (\<lambda>_. []), delivered = []\<rparr>)
   \<and> propset (\<lambda>r. ''0.0'') \<lparr>p_args = [], p_stdout = FileWrapper_init, p_stderr = FileWrapper_init,
      p_proc = Some \<lparr>returncode = None, stdin = [], stdout = Some 0\<rparr>,
      command_prefix = ''pausing_keep_force''\<rparr> \<lparr>files = (\<lambda>_. []), delivered = []\<rparr> (StepVal \<lparr>s_val = PInt 150, s_dir = PInt (- 1)\<rparr>) ''volume'' TInt
       (Some (PInt 0)) (Some (PInt 100))
     = Some (Returned None, \<lparr>p_args = [], p_stdout = FileWrapper_init, p_stderr = FileWrapper_init,
      p_proc = Some \<lparr>returncode = None, stdin = [''pausing_keep_force step_property volume 150 -1 '' @ [CHR 0x0A]], stdout = Some 0\<rparr>,
      command_prefix = ''pausing_keep_force''\<rparr>, \<lparr>files = (\<lambda>_. []), delivered = []\<rparr>)"
  using
    propset_validation [where fstr = "(\<lambda>r. ''0.0'')" and p = "\<lparr>p_args = [], p_stdout = FileWrapper_init, p_stderr = FileWrapper_init,
      p_proc = Some \<lparr>returncode = None, stdin = [], stdout = Some 0\<rparr>,
      command_prefix = ''pausing_keep_force''\<rparr>" and w = "\<lparr>files = (\<lambda>_. []), delivered = []\<rparr>" and v = "PInt 150"
      and pname = "''volume''" and ptype = TInt and pmin = "Some (PInt 0)" and pmax = "Some (PInt 100)"
      and lo = "PInt 0" and hi = "PInt 100" and pr = "\<lparr>returncode = None, stdin = [], stdout = Some 0\<rparr>"
      and s = "\<lparr>s_val = PInt 150, s_dir = PInt (- 1)\<rparr>" and sv = "PInt 150" and sd = "PInt (- 1)"]
    propset_validation [where fstr = "(\<lambda>r. ''0.0'')" and p = "\<lparr>p_args = [], p_stdout = FileWrapper_init, p_stderr = FileWrapper_init,
      p_proc = Some \<lparr>returncode = None, stdin = [], stdout = Some 0\<rparr>,
      command_prefix = ''pausing_keep_force''\<rparr>" and w = "\<lparr>files = (\<lambda>_. []), delivered = []\<rparr>" and v = "PFloat 50"
      and pname = "''volume''" and ptype = TInt and pmin = "Some (PInt 0)" and pmax = "Some (PInt 100)"
      and lo = "PInt 0" and hi = "PInt 100" and pr = "\<lparr>returncode = None, stdin = [], stdout = Some 0\<rparr>"
      and s = "\<lparr>s_val = PInt 150, s_dir = PInt (- 1)\<rparr>" and sv = "PInt 150" and sd = "PInt (- 1)"]
  by (simp add: py_less_def Step_init_def isinstance_any_def render_def str_int_def digits.simps
      digit_char_def)

text \<open>
  C10. A \<^verbatim>\<open>Step\<close> assigned to a boolean property of a live player writes the line
  \<^verbatim>\<open><prefix> step_property <name>\<close> with no further argument: its magnitude and direction
  are not sent. Assigned through \<^verbatim>\<open>_propset\<close>, it writes
  \<^verbatim>\<open><prefix> step_property <name> <magnitude> <direction>\<close>.
\<close>

theorem step_property_lines:
  "p_proc p = Some pr \<and> returncode pr = None \<and> Step_init sv sd = Inr s \<longrightarrow>
     propset_bool fstr p w (StepVal s) pname =
       Some (Returned None,
         p\<lparr>p_proc := Some (pr\<lparr>stdin := stdin pr @
           [command_prefix p @ '' step_property '' @ pname @ [CHR '' '', CHR 0x0A]]\<rparr>)\<rparr>, w)
     \<and> propset fstr p w (StepVal s) pname ptype pmin pmax =
       Some (Returned None,
         p\<lparr>p_proc := Some (pr\<lparr>stdin := stdin pr @
           [command_prefix p @ '' step_property '' @ pname @ '' '' @ render fstr sv @ '' '' @
              render fstr sd @ [CHR '' '', CHR 0x0A]]\<rparr>)\<rparr>, w)"
  using propset_bool_step_line [of p pr fstr w s pname]
    propset_step_line [of p pr sv sd s fstr w pname ptype pmin pmax]
  by blast

theorem step_property_lines_witness:
  "propset_bool (\<lambda>r. ''0.0'') \<lparr>p_args = [], p_stdout = FileWrapper_init, p_stderr = FileWrapper_init,
      p_proc = Some \<lparr>returncode = None, stdin = [], stdout = Some 0\<rparr>,
      command_prefix = ''pausing_keep_force''\<rparr> \<lparr>files = (\<lambda>_. []), delivered = []\<rparr> (StepVal \<lparr>s_val = PInt 0, s_dir = PInt 0\<rparr>) ''fullscreen''
     = Some (Returned None, \<lparr>p_args = [], p_stdout = FileWrapper_init, p_stderr = FileWrapper_init,
      p_proc = Some \<lparr>returncode = None, stdin = [''pausing_keep_force step_property fullscreen '' @ [CHR 0x0A]], stdout = Some 0\<rparr>,
      command_prefix = ''pausing_keep_force''\<rparr>, \<lparr>files = (\<lambda>_. []), delivered = []\<rparr>)
   \<and> propset (\<lambda>r. ''0.0'') \<lparr>p_args = [], p_stdout = FileWrapper_init, p_stderr = FileWrapper_init,
      p_proc = Some \<lparr>returncode = None, stdin = [], stdout = Some 0\<rparr>,
      command_prefix = ''pausing_keep_force''\<rparr> \<lparr>files = (\<lambda>_. []), delivered = []\<rparr> (StepVal \<lparr>s_val = PInt 0, s_dir = PInt 0\<rparr>) ''volume'' TFloat
       (Some (PFloat 0)) (Some (PFloat 100))
     = Some (Returned None, \<lparr>p_args = [], p_stdout = FileWrapper_init, p_stderr = FileWrapper_init,
      p_proc = Some \<lparr>returncode = None, stdin = [''pausing_keep_force step_property volume 0 0 '' @ [CHR 0x0A]], stdout = Some 0\<rparr>,
      command_prefix = ''pausing_keep_force''\<rparr>, \<lparr>files = (\<lambda>_. []), delivered = []\<rparr>)"
  using step_property_lines [where fstr = "(\<lambda>r. ''0.0'')" and p = "\<lparr>p_args = [], p_stdout = FileWrapper_init, p_stderr = FileWrapper_init,
      p_proc = Some \<lparr>returncode = None, stdin = [], stdout = Some 0\<rparr>,
      command_prefix = ''pausing_keep_force''\<rparr>" and w = "\<lparr>files = (\<lambda>_. []), delivered = []\<rparr>" and pr = "\<lparr>returncode = None, stdin = [], stdout = Some 0\<rparr>"
      and s = "\<lparr>s_val = PInt 0, s_dir = PInt 0\<rparr>" and sv = "PInt 0" and sd = "PInt 0"
      and pname = "''fullscreen''"]
    step_property_lines [where fstr = "(\<lambda>r. ''0.0'')" and p = "\<lparr>p_args = [], p_stdout = FileWrapper_init, p_stderr = FileWrapper_init,
      p_proc = Some \<lparr>returncode = None, stdin = [], stdout = Some 0\<rparr>,
      command_prefix = ''pausing_keep_force''\<rparr>" and w = "\<lparr>files = (\<lambda>_. []), delivered = []\<rparr>" and pr = "\<lparr>returncode = None, stdin = [], stdout = Some 0\<rparr>"
      and s = "\<lparr>s_val = PInt 0, s_dir = PInt 0\<rparr>" and sv = "PInt 0" and sd = "PInt 0"
      and pname = "''volume''" and ptype = TFloat and pmin = "Some (PFloat 0)"
      and pmax = "Some (PFloat 100)"]
  by (simp add: Step_init_def isinstance_any_def render_def str_int_def digits.simps digit_char_def)

text \<open>
  C8. Assigning a string to \<^verbatim>\<open>args\<close> stores the seven fixed tokens followed by the split
  of the string, when the split succeeds (an unbalanced quotation makes it raise
  \<^verbatim>\<open>ValueError\<close>, and so the assignment); assigning a sequence stores the fixed tokens
  followed by the string forms of its elements. The getter returns the stored list
  without its first seven entries, that is, exactly what was appended.
\<close>

theorem args_roundtrip:
  "(split s = Inr ts \<longrightarrow>
      args_setter split fstr p (ArgString s) = Inr (p\<lparr>p_args := fixed_args @ ts\<rparr>))
   \<and> args_setter split fstr p (ArgSeq xs) = Inr (p\<lparr>p_args := fixed_args @ map (pystr fstr) xs\<rparr>)
   \<and> args_getter (p\<lparr>p_args := fixed_args @ ys\<rparr>) = ys
   \<and> take 7 (p_args (p\<lparr>p_args := fixed_args @ ys\<rparr>)) = fixed_args
   \<and> fixed_args = [''-slave'', ''-idle'', ''-quiet'', ''-input'', ''nodefault-bindings'',
        ''-noconfig'', ''all'']
   \<and> (split s = Inl (ValueError m) \<longrightarrow>
        args_setter split fstr p (ArgString s) = Inl (ValueError m))"
  by (simp add: args_setter_def args_getter_def fixed_args_def)

theorem args_roundtrip_witness:
  "map_sum id args_getter
       (args_setter (\<lambda>s. Inr [''-fs'', ''-idx'']) (\<lambda>r. ''0.0'') \<lparr>p_args = [], p_stdout = FileWrapper_init, p_stderr = FileWrapper_init,
      p_proc = Some \<lparr>returncode = None, stdin = [], stdout = Some 0\<rparr>,
      command_prefix = ''pausing_keep_force''\<rparr> (ArgString ''-fs -idx''))
     = Inr [''-fs'', ''-idx'']
   \<and> map_sum id args_getter
       (args_setter (\<lambda>s. Inr [''-fs'', ''-idx'']) (\<lambda>r. ''0.0'') \<lparr>p_args = [], p_stdout = FileWrapper_init, p_stderr = FileWrapper_init,
      p_proc = Some \<lparr>returncode = None, stdin = [], stdout = Some 0\<rparr>,
      command_prefix = ''pausing_keep_force''\<rparr> (ArgSeq [PStr ''-wid'', PInt 42]))
     = Inr [''-wid'', ''42'']
   \<and> map_sum id p_args
       (args_setter (\<lambda>s. Inr [''-fs'', ''-idx'']) (\<lambda>r. ''0.0'') \<lparr>p_args = [], p_stdout = FileWrapper_init, p_stderr = FileWrapper_init,
      p_proc = Some \<lparr>returncode = None, stdin = [], stdout = Some 0\<rparr>,
      command_prefix = ''pausing_keep_force''\<rparr> (ArgSeq [PStr ''-wid'', PInt 42]))
     = Inr [''-slave'', ''-idle'', ''-quiet'', ''-input'', ''nodefault-bindings'',
        ''-noconfig'', ''all'', ''-wid'', ''42'']"
  using args_roundtrip [where split = "\<lambda>s. Inr [''-fs'', ''-idx'']" and s = "''-fs -idx''"
      and ts = "[''-fs'', ''-idx'']" and fstr = "(\<lambda>r. ''0.0'')" and p = "\<lparr>p_args = [], p_stdout = FileWrapper_init, p_stderr = FileWrapper_init,
      p_proc = Some \<lparr>returncode = None, stdin = [], stdout = Some 0\<rparr>,
      command_prefix = ''pausing_keep_force''\<rparr>"
      and xs = "[PStr ''-wid'', PInt 42]" and ys = "[''-fs'', ''-idx'']"]
    args_roundtrip [where split = "\<lambda>s. Inr [''-fs'', ''-idx'']" and s = "''-fs -idx''"
      and ts = "[''-fs'', ''-idx'']" and fstr = "(\<lambda>r. ''0.0'')" and p = "\<lparr>p_args = [], p_stdout = FileWrapper_init, p_stderr = FileWrapper_init,
      p_proc = Some \<lparr>returncode = None, stdin = [], stdout = Some 0\<rparr>,
      command_prefix = ''pausing_keep_force''\<rparr>"
      and xs = "[PStr ''-wid'', PInt 42]" and ys = "[''-wid'', ''42'']"]
  by (simp add: str_int_def digits.simps digit_char_def)

end
